theory Spec2Isabelle
  imports Complex_Main
begin

section \<open>Data model (app/db/models.py)\<close>

text \<open>
  Monetary values are Python \<open>Decimal\<close>s stored in \<open>DECIMAL(10, 2)\<close> columns; they are
  modelled exactly, as an integer number of hundredths. Identifiers and quantities are
  Python integers. A \<open>DateTime\<close> is a calendar day (its ordinal) and the microsecond
  within that day; \<open>datetime.time.min\<close> is microsecond 0 and \<open>datetime.time.max\<close> is
  microsecond 86399999999.
\<close>

type_synonym decimal = int
type_synonym date = int
type_synonym datetime = "int \<times> nat"

definition combine :: "date \<Rightarrow> nat \<Rightarrow> datetime" where
  "combine d t = (d, t)"

definition time_min :: nat where
  "time_min = 0"

definition time_max :: nat where
  "time_max = 86399999999"

fun dt_le :: "datetime \<Rightarrow> datetime \<Rightarrow> bool" where
  "dt_le (d1, t1) (d2, t2) = (d1 < d2 \<or> (d1 = d2 \<and> t1 \<le> t2))"

record Category =
  cat_id :: int
  cat_name :: string
  cat_description :: "string option"

record Product =
  p_id :: int
  p_name :: string
  p_description :: "string option"
  p_price :: decimal
  p_category_id :: int
  p_sku :: "string option"
  p_created_at :: datetime
  p_updated_at :: datetime

record Inventory =
  inv_id :: int
  inv_product_id :: int
  inv_quantity :: int
  inv_low_stock_threshold :: int
  inv_last_updated :: datetime

record InventoryLog =
  log_id :: int
  log_product_id :: int
  log_change_quantity :: int
  log_new_quantity :: int
  log_reason :: "string option"
  log_timestamp :: datetime

record Order =
  o_id :: int
  o_order_date :: datetime
  o_customer_name :: "string option"
  o_status :: string
  o_total_amount :: decimal

record OrderItem =
  oi_id :: int
  oi_order_id :: int
  oi_product_id :: int
  oi_quantity :: int
  oi_price_at_sale :: decimal
  oi_subtotal :: decimal

text \<open>
  The durable storage: one list of rows per table, in insertion order, and the next
  value of each table's autoincrement key.
\<close>

record database =
  categories :: "Category list"
  products :: "Product list"
  inventory :: "Inventory list"
  inventory_logs :: "InventoryLog list"
  orders :: "Order list"
  order_items :: "OrderItem list"
  products_seq :: int
  inventory_seq :: int
  inventory_logs_seq :: int
  orders_seq :: int
  order_items_seq :: int

definition empty_db :: database where
  "empty_db = \<lparr>categories = [], products = [], inventory = [], inventory_logs = [],
     orders = [], order_items = [], products_seq = 1, inventory_seq = 1,
     inventory_logs_seq = 1, orders_seq = 1, order_items_seq = 1\<rparr>"

section \<open>Request schemas (app/schemas)\<close>

record ProductCreate =
  pc_name :: string
  pc_description :: "string option"
  pc_price :: decimal
  pc_category_id :: int
  pc_sku :: "string option"
  pc_initial_quantity :: int
  pc_low_stock_threshold :: "int option"

text \<open>
  \<open>ProductUpdate\<close> is applied with \<open>model_dump(exclude_unset=True)\<close>: a field is either
  unset (\<open>None\<close>), or set to null (\<open>Some None\<close>), or set to a value.
\<close>

record ProductUpdate =
  pu_name :: "string option option"
  pu_description :: "string option option"
  pu_price :: "decimal option option"
  pu_category_id :: "int option option"
  pu_sku :: "string option option"

record InventoryUpdate =
  iu_quantity_change :: "int option"
  iu_absolute_quantity :: "int option"
  iu_reason :: "string option"
  iu_low_stock_threshold :: "int option"

record OrderItemCreate =
  oic_product_id :: int
  oic_quantity :: int

record OrderCreate =
  oc_customer_name :: "string option"
  oc_items :: "OrderItemCreate list"

section \<open>Errors and formatted messages\<close>

text \<open>
  \<open>ValueError\<close> is what \<open>create_order\<close> raises itself; \<open>StorageError\<close> stands for any
  exception raised by \<open>db.commit()\<close>. Whether a commit succeeds is decided by the
  storage engine, so it is a parameter of every operation that commits.
\<close>

datatype error = ValueError string | StorageError

fun str_nat :: "nat \<Rightarrow> string" where
  "str_nat n = (if n < 10 then [''0123456789'' ! n]
                else str_nat (n div 10) @ [''0123456789'' ! (n mod 10)])"

declare str_nat.simps [simp del]

definition str_int :: "int \<Rightarrow> string" where
  "str_int i = (if i < 0 then CHR ''-'' # str_nat (nat (- i)) else str_nat (nat i))"

definition product_not_found_msg :: "int \<Rightarrow> string" where
  "product_not_found_msg product_id =
     ''Product with ID '' @ str_int product_id @ '' not found.''"

definition not_enough_stock_msg :: "string \<Rightarrow> int \<Rightarrow> int \<Rightarrow> int \<Rightarrow> string" where
  "not_enough_stock_msg name product_id available requested =
     ''Not enough stock for product '' @ name @ '' (ID: '' @ str_int product_id
       @ ''). Available: '' @ str_int available @ '', Requested: '' @ str_int requested"

definition sale_reason :: "int \<Rightarrow> string" where
  "sale_reason order_id = ''Sale - Order ID: '' @ str_int order_id"

section \<open>Queries (app/db/crud.py)\<close>

definition get_product :: "database \<Rightarrow> int \<Rightarrow> Product option" where
  "get_product db product_id = find (\<lambda>p. p_id p = product_id) (products db)"

definition get_inventory_by_product_id :: "database \<Rightarrow> int \<Rightarrow> Inventory option" where
  "get_inventory_by_product_id db product_id =
     find (\<lambda>r. inv_product_id r = product_id) (inventory db)"

definition get_category :: "database \<Rightarrow> int \<Rightarrow> Category option" where
  "get_category db category_id = find (\<lambda>c. cat_id c = category_id) (categories db)"

definition get_product_by_sku :: "database \<Rightarrow> string \<Rightarrow> Product option" where
  "get_product_by_sku db sku = find (\<lambda>p. p_sku p = Some sku) (products db)"

definition get_order :: "database \<Rightarrow> int \<Rightarrow> Order option" where
  "get_order db order_id = find (\<lambda>r. o_id r = order_id) (orders db)"

section \<open>create\_product\<close>

text \<open>
  The product row is added and committed first; the inventory row and the
  \<open>Initial stock\<close> log entry are added afterwards and committed together by a second
  commit. A commit that raises leaves the storage as the last successful commit
  left it.
\<close>

definition create_product ::
  "bool \<Rightarrow> bool \<Rightarrow> datetime \<Rightarrow> ProductCreate \<Rightarrow> database \<Rightarrow> (error + Product) \<times> database" where
  "create_product commit1_ok commit2_ok now product db =
     (let db_product = \<lparr>p_id = products_seq db, p_name = pc_name product,
            p_description = pc_description product, p_price = pc_price product,
            p_category_id = pc_category_id product, p_sku = pc_sku product,
            p_created_at = now, p_updated_at = now\<rparr>;
          db1 = db\<lparr>products := products db @ [db_product],
                   products_seq := products_seq db + 1\<rparr>
      in if \<not> commit1_ok then (Inl StorageError, db)
         else
           let db_inventory = \<lparr>inv_id = inventory_seq db1, inv_product_id = p_id db_product,
                  inv_quantity = pc_initial_quantity product,
                  inv_low_stock_threshold =
                    (case pc_low_stock_threshold product of Some t \<Rightarrow> t | None \<Rightarrow> 10),
                  inv_last_updated = now\<rparr>;
               db_inventory_log = \<lparr>log_id = inventory_logs_seq db1,
                  log_product_id = p_id db_product,
                  log_change_quantity = pc_initial_quantity product,
                  log_new_quantity = pc_initial_quantity product,
                  log_reason = Some ''Initial stock'', log_timestamp = now\<rparr>;
               db2 = db1\<lparr>inventory := inventory db1 @ [db_inventory],
                        inventory_seq := inventory_seq db1 + 1,
                        inventory_logs := inventory_logs db1 @ [db_inventory_log],
                        inventory_logs_seq := inventory_logs_seq db1 + 1\<rparr>
           in if \<not> commit2_ok then (Inl StorageError, db1)
              else (Inr db_product, db2))"

section \<open>update\_product\<close>

text \<open>
  Each set field is assigned by \<open>setattr\<close>. The columns \<open>name\<close>, \<open>price\<close> and
  \<open>category_id\<close> are not nullable, so a row with one of them set to null is refused by
  the commit. \<open>updated_at\<close> is refreshed when the row changed.
\<close>

definition set_field :: "'a option option \<Rightarrow> 'a \<Rightarrow> 'a" where
  "set_field upd old = (case upd of Some (Some v) \<Rightarrow> v | _ \<Rightarrow> old)"

definition set_nullable :: "'a option option \<Rightarrow> 'a option \<Rightarrow> 'a option" where
  "set_nullable upd old = (case upd of Some v \<Rightarrow> v | None \<Rightarrow> old)"

definition update_product ::
  "bool \<Rightarrow> datetime \<Rightarrow> int \<Rightarrow> ProductUpdate \<Rightarrow> database \<Rightarrow> (error + Product option) \<times> database" where
  "update_product commit_ok now product_id product_update db =
     (case get_product db product_id of
        None \<Rightarrow> (Inr None, db)
      | Some db_product \<Rightarrow>
          let changed = db_product\<lparr>
                p_name := set_field (pu_name product_update) (p_name db_product),
                p_description :=
                  set_nullable (pu_description product_update) (p_description db_product),
                p_price := set_field (pu_price product_update) (p_price db_product),
                p_category_id :=
                  set_field (pu_category_id product_update) (p_category_id db_product),
                p_sku := set_nullable (pu_sku product_update) (p_sku db_product)\<rparr>;
              updated = (if changed = db_product then db_product
                         else changed\<lparr>p_updated_at := now\<rparr>);
              null_violation = (pu_name product_update = Some None
                                \<or> pu_price product_update = Some None
                                \<or> pu_category_id product_update = Some None)
          in if \<not> commit_ok \<or> null_violation then (Inl StorageError, db)
             else (Inr (Some updated),
                   db\<lparr>products := map (\<lambda>p. if p_id p = p_id db_product then updated else p)
                                       (products db)\<rparr>))"

section \<open>update\_inventory\<close>

definition update_inventory ::
  "bool \<Rightarrow> datetime \<Rightarrow> int \<Rightarrow> InventoryUpdate \<Rightarrow> database
     \<Rightarrow> (error + Inventory option) \<times> database" where
  "update_inventory commit_ok now product_id inventory_upd db =
     (case get_inventory_by_product_id db product_id of
        None \<Rightarrow> (Inr None, db)
      | Some db_inventory \<Rightarrow>
          let original_quantity = inv_quantity db_inventory;
              log_reason = (case iu_reason inventory_upd of
                              None \<Rightarrow> ''Manual update''
                            | Some r \<Rightarrow> if r = [] then ''Manual update'' else r);
              new_quantity = (case iu_quantity_change inventory_upd of
                                Some c \<Rightarrow> original_quantity + c
                              | None \<Rightarrow>
                                  (case iu_absolute_quantity inventory_upd of
                                     Some a \<Rightarrow> a
                                   | None \<Rightarrow> original_quantity));
              new_quantity = (if new_quantity < 0 then 0 else new_quantity);
              change_quantity = new_quantity - original_quantity;
              updated = db_inventory\<lparr>inv_quantity := new_quantity,
                 inv_low_stock_threshold :=
                   (case iu_low_stock_threshold inventory_upd of
                      Some t \<Rightarrow> t | None \<Rightarrow> inv_low_stock_threshold db_inventory),
                 inv_last_updated := now\<rparr>;
              db1 = db\<lparr>inventory :=
                        map (\<lambda>r. if inv_id r = inv_id db_inventory then updated else r)
                            (inventory db)\<rparr>;
              db2 = (if change_quantity \<noteq> 0
                        \<or> (case iu_quantity_change inventory_upd of
                              Some c \<Rightarrow> c \<noteq> 0 | None \<Rightarrow> False)
                        \<or> (case iu_absolute_quantity inventory_upd of
                              Some a \<Rightarrow> a \<noteq> original_quantity | None \<Rightarrow> False)
                     then db1\<lparr>inventory_logs := inventory_logs db1 @
                              [\<lparr>log_id = inventory_logs_seq db1, log_product_id = product_id,
                                log_change_quantity = change_quantity,
                                log_new_quantity = new_quantity,
                                log_reason = Some log_reason, log_timestamp = now\<rparr>],
                            inventory_logs_seq := inventory_logs_seq db1 + 1\<rparr>
                     else db1)
          in if \<not> commit_ok then (Inl StorageError, db)
             else (Inr (Some updated), db2))"

section \<open>create\_order\<close>

text \<open>
  The first loop of \<open>create_order\<close>: it reads the product and the inventory row of
  each line, raises \<open>ValueError\<close> at the first line that fails, and accumulates
  \<open>total_order_amount\<close>, \<open>order_items_to_create\<close> and \<open>inventory_updates_needed\<close>.
  It writes nothing.
\<close>

type_synonym item_info = "int \<times> int \<times> decimal \<times> decimal"
type_synonym inventory_update_needed = "int \<times> int \<times> int"

fun validate_items ::
  "database \<Rightarrow> OrderItemCreate list \<Rightarrow> decimal \<times> item_info list \<times> inventory_update_needed list
     \<Rightarrow> error + (decimal \<times> item_info list \<times> inventory_update_needed list)" where
  "validate_items db [] acc = Inr acc"
| "validate_items db (item_data # rest)
       (total_order_amount, order_items_to_create, inventory_updates_needed) =
     (case get_product db (oic_product_id item_data) of
        None \<Rightarrow> Inl (ValueError (product_not_found_msg (oic_product_id item_data)))
      | Some db_product \<Rightarrow>
          (case get_inventory_by_product_id db (oic_product_id item_data) of
             None \<Rightarrow> Inl (ValueError (not_enough_stock_msg (p_name db_product)
                        (oic_product_id item_data) 0 (oic_quantity item_data)))
           | Some db_inventory \<Rightarrow>
               if inv_quantity db_inventory < oic_quantity item_data
               then Inl (ValueError (not_enough_stock_msg (p_name db_product)
                       (oic_product_id item_data) (inv_quantity db_inventory)
                       (oic_quantity item_data)))
               else
                 let price_at_sale = p_price db_product;
                     subtotal = price_at_sale * oic_quantity item_data
                 in validate_items db rest
                      (total_order_amount + subtotal,
                       order_items_to_create @
                         [(oic_product_id item_data, oic_quantity item_data,
                           price_at_sale, subtotal)],
                       inventory_updates_needed @
                         [(oic_product_id item_data, oic_quantity item_data,
                           inv_quantity db_inventory)])))"

text \<open>The second loop: one \<open>OrderItem\<close> row per accumulated line.\<close>

fun add_order_items :: "int \<Rightarrow> item_info list \<Rightarrow> database \<Rightarrow> database" where
  "add_order_items order_id [] db = db"
| "add_order_items order_id ((product_id, quantity, price_at_sale, subtotal) # rest) db =
     add_order_items order_id rest
       (db\<lparr>order_items := order_items db @
              [\<lparr>oi_id = order_items_seq db, oi_order_id = order_id,
                oi_product_id = product_id, oi_quantity = quantity,
                oi_price_at_sale = price_at_sale, oi_subtotal = subtotal\<rparr>],
            order_items_seq := order_items_seq db + 1\<rparr>)"

text \<open>
  The third loop: the inventory row is read again, its quantity is decreased by the
  line's quantity, and a log entry is added. The quantity recorded during validation
  (\<open>original_inv_qty\<close>) is not used.
\<close>

fun deduct_inventory ::
  "datetime \<Rightarrow> int \<Rightarrow> inventory_update_needed list \<Rightarrow> database \<Rightarrow> database" where
  "deduct_inventory now order_id [] db = db"
| "deduct_inventory now order_id ((product_id, quantity_deducted, original_inv_qty) # rest) db =
     (case get_inventory_by_product_id db product_id of
        None \<Rightarrow> deduct_inventory now order_id rest db
      | Some db_inventory \<Rightarrow>
          let new_inv_quantity = inv_quantity db_inventory - quantity_deducted;
              updated = db_inventory\<lparr>inv_quantity := new_inv_quantity,
                                       inv_last_updated := now\<rparr>
          in deduct_inventory now order_id rest
               (db\<lparr>inventory :=
                      map (\<lambda>r. if inv_id r = inv_id db_inventory then updated else r)
                          (inventory db),
                    inventory_logs := inventory_logs db @
                      [\<lparr>log_id = inventory_logs_seq db, log_product_id = product_id,
                        log_change_quantity = - quantity_deducted,
                        log_new_quantity = new_inv_quantity,
                        log_reason = Some (sale_reason order_id), log_timestamp = now\<rparr>],
                    inventory_logs_seq := inventory_logs_seq db + 1\<rparr>))"

text \<open>
  The order row is committed on its own (first commit); the order items, the stock
  deductions and the log entries are committed together (second commit).
\<close>

definition create_order ::
  "bool \<Rightarrow> bool \<Rightarrow> datetime \<Rightarrow> OrderCreate \<Rightarrow> database \<Rightarrow> (error + Order) \<times> database" where
  "create_order commit1_ok commit2_ok now order_data db =
     (case validate_items db (oc_items order_data) (0, [], []) of
        Inl e \<Rightarrow> (Inl e, db)
      | Inr (total_order_amount, order_items_to_create, inventory_updates_needed) \<Rightarrow>
          let db_order = \<lparr>o_id = orders_seq db, o_order_date = now,
                 o_customer_name = oc_customer_name order_data,
                 o_status = ''completed'', o_total_amount = total_order_amount\<rparr>;
              db1 = db\<lparr>orders := orders db @ [db_order], orders_seq := orders_seq db + 1\<rparr>
          in if \<not> commit1_ok then (Inl StorageError, db)
             else
               let db2 = add_order_items (o_id db_order) order_items_to_create db1;
                   db3 = deduct_inventory now (o_id db_order) inventory_updates_needed db2
               in if \<not> commit2_ok then (Inl StorageError, db1)
                  else (Inr db_order, db3))"

text \<open>
  The statements of \<open>create_order\<close> after the validation loop, as a function of what
  the loop accumulated. Between the loop and these statements the function holds no
  lock, so another request may commit in between: the storage they run against need
  not be the storage the loop read.
\<close>

definition commit_order ::
  "bool \<Rightarrow> bool \<Rightarrow> datetime \<Rightarrow> OrderCreate
     \<Rightarrow> decimal \<times> item_info list \<times> inventory_update_needed list \<Rightarrow> database
     \<Rightarrow> (error + Order) \<times> database" where
  "commit_order commit1_ok commit2_ok now order_data validated db =
     (case validated of
        (total_order_amount, order_items_to_create, inventory_updates_needed) \<Rightarrow>
          let db_order = \<lparr>o_id = orders_seq db, o_order_date = now,
                 o_customer_name = oc_customer_name order_data,
                 o_status = ''completed'', o_total_amount = total_order_amount\<rparr>;
              db1 = db\<lparr>orders := orders db @ [db_order], orders_seq := orders_seq db + 1\<rparr>
          in if \<not> commit1_ok then (Inl StorageError, db)
             else
               let db2 = add_order_items (o_id db_order) order_items_to_create db1;
                   db3 = deduct_inventory now (o_id db_order) inventory_updates_needed db2
               in if \<not> commit2_ok then (Inl StorageError, db1)
                  else (Inr db_order, db3))"

section \<open>Revenue comparison (crud.get\_revenue\_for\_period, sales\_reports.py)\<close>

definition in_period :: "datetime \<Rightarrow> date \<Rightarrow> date \<Rightarrow> bool" where
  "in_period t start_date end_date =
     (dt_le (combine start_date time_min) t \<and> dt_le t (combine end_date time_max))"

text \<open>
  The query of \<open>get_revenue_for_period\<close>: it joins order items with their order and
  product, filters on the order date and, when \<open>category_id\<close> is truthy (neither \<open>None\<close>
  nor 0), joins the category and filters on it.
\<close>

definition revenue_query :: "database \<Rightarrow> date \<Rightarrow> date \<Rightarrow> int option \<Rightarrow> OrderItem list" where
  "revenue_query db start_date end_date category_id =
     (let filtered = (category_id \<noteq> None \<and> category_id \<noteq> Some 0);
          joined = [(oi, p). oi \<leftarrow> order_items db, ord \<leftarrow> orders db,
                      o_id ord = oi_order_id oi, p \<leftarrow> products db,
                      p_id p = oi_product_id oi,
                      in_period (o_order_date ord) start_date end_date]
      in if filtered
         then [oi. (oi, p) \<leftarrow> joined, c \<leftarrow> categories db,
                 cat_id c = p_category_id p, Some (p_category_id p) = category_id]
         else map fst joined)"

text \<open>
  \<open>query\<close> is the object built by \<open>db.query(...)\<close>, a \<open>Query\<close> of the ORM. A \<open>Query\<close> has
  the methods \<open>scalar\<close>, \<open>one\<close>, \<open>one_or_none\<close> and \<open>first\<close>; it has no attribute
  \<open>scalar_one_or_none\<close> (that is a method of the result of \<open>session.execute\<close>). Looking
  the attribute up raises \<open>AttributeError\<close>, whatever the query selects, before any
  statement is sent.
\<close>

datatype query_error = AttributeError string

definition scalar_one_or_none :: "OrderItem list \<Rightarrow> query_error + decimal option" where
  "scalar_one_or_none query =
     Inl (AttributeError ''Query object has no attribute scalar_one_or_none'')"

text \<open>
  \<open>get_revenue_for_period\<close> builds the query, looks the category name up when
  \<open>category_id\<close> is truthy, and then calls \<open>query.scalar_one_or_none()\<close>; a \<open>None\<close> result
  would be replaced by \<open>Decimal("0.00")\<close>.
\<close>

definition get_revenue_for_period ::
  "database \<Rightarrow> date \<Rightarrow> date \<Rightarrow> int option \<Rightarrow> query_error + (decimal \<times> string option)" where
  "get_revenue_for_period db start_date end_date category_id =
     (let query = revenue_query db start_date end_date category_id;
          category_name = (if category_id \<noteq> None \<and> category_id \<noteq> Some 0
                           then (case find (\<lambda>c. Some (cat_id c) = category_id) (categories db) of
                                   Some c \<Rightarrow> Some (cat_name c) | None \<Rightarrow> None)
                           else None)
      in case scalar_one_or_none query of
           Inl e \<Rightarrow> Inl e
         | Inr result \<Rightarrow> Inr (case result of Some r \<Rightarrow> r | None \<Rightarrow> 0, category_name))"

text \<open>
  \<open>percentage_change\<close> is a Python float: a finite value or \<open>float('inf')\<close>. The finite
  value \<open>round((difference / rev1) * 100, 2)\<close> is computed by the \<open>decimal\<close> library and
  converted to a float; that computation is the parameter \<open>percent\<close>, which returns
  \<open>None\<close> when the library raises. Everything from the two calls of
  \<open>get_revenue_for_period\<close> to the construction of the response is inside a \<open>try\<close> whose
  handler turns any exception into HTTP 500.
\<close>

datatype pyfloat = Float real | Infinity

datatype http_error = HTTP400 string | HTTP500 string

record RevenueComparisonResponse =
  rcr_period1_start_date :: date
  rcr_period1_end_date :: date
  rcr_period1_revenue :: decimal
  rcr_period1_category_name :: "string option"
  rcr_period2_start_date :: date
  rcr_period2_end_date :: date
  rcr_period2_revenue :: decimal
  rcr_period2_category_name :: "string option"
  rcr_difference :: decimal
  rcr_percentage_change :: pyfloat

definition get_revenue_comparison_report ::
  "(decimal \<Rightarrow> decimal \<Rightarrow> real option) \<Rightarrow> date option \<Rightarrow> date option \<Rightarrow> date option
     \<Rightarrow> date option \<Rightarrow> int option \<Rightarrow> int option \<Rightarrow> database
     \<Rightarrow> http_error + RevenueComparisonResponse" where
  "get_revenue_comparison_report percent p1_start p1_end p2_start p2_end
       category_id1 category_id2 db =
     (case (p1_start, p1_end, p2_start, p2_end) of
        (Some s1, Some e1, Some s2, Some e2) \<Rightarrow>
          if s1 > e1 \<or> s2 > e2
          then Inl (HTTP400 ''Start date cannot be after end date for any period.'')
          else
            let category_id2 = (if category_id1 \<noteq> None \<and> category_id2 = None
                                then category_id1 else category_id2)
            in (case get_revenue_for_period db s1 e1 category_id1 of
                  Inl e \<Rightarrow> Inl (HTTP500 ''Error processing revenue comparison.'')
                | Inr (rev1, cat1_name) \<Rightarrow>
                    (case get_revenue_for_period db s2 e2 category_id2 of
                       Inl e \<Rightarrow> Inl (HTTP500 ''Error processing revenue comparison.'')
                     | Inr (rev2, cat2_name) \<Rightarrow>
                         let difference = rev2 - rev1;
                             percentage_change =
                               (if rev1 > 0 then map_option Float (percent difference rev1)
                                else if rev2 > 0 then Some Infinity
                                else Some (Float 0))
                         in (case percentage_change of
                               None \<Rightarrow> Inl (HTTP500 ''Error processing revenue comparison.'')
                             | Some pc \<Rightarrow>
                                 Inr \<lparr>rcr_period1_start_date = s1, rcr_period1_end_date = e1,
                                      rcr_period1_revenue = rev1,
                                      rcr_period1_category_name = cat1_name,
                                      rcr_period2_start_date = s2, rcr_period2_end_date = e2,
                                      rcr_period2_revenue = rev2,
                                      rcr_period2_category_name = cat2_name,
                                      rcr_difference = difference,
                                      rcr_percentage_change = pc\<rparr>)))
      | _ \<Rightarrow> Inl (HTTP400
                 ''All date parameters are required and must be valid (YYYY-MM-DD).''))"

section \<open>The audit trail\<close>

text \<open>
  Replaying the log entries of one product, oldest first, from quantity \<open>q\<close>: every
  entry must record as \<open>new_quantity\<close> the quantity before it plus its
  \<open>change_quantity\<close>. The result is the quantity after the last entry, or \<open>None\<close> when
  some entry does not fit.
\<close>

fun replay_log :: "int \<Rightarrow> InventoryLog list \<Rightarrow> int \<Rightarrow> int option" where
  "replay_log product_id [] q = Some q"
| "replay_log product_id (l # ls) q =
     (if log_product_id l = product_id
      then (if log_new_quantity l = q + log_change_quantity l
            then replay_log product_id ls (log_new_quantity l) else None)
      else replay_log product_id ls q)"

text \<open>
  The log is complete when, for every inventory row, the log entries of its product
  replayed from 0 (no stock before the product existed) end at the row's quantity.
\<close>

definition audit_complete :: "database \<Rightarrow> bool" where
  "audit_complete db =
     list_all (\<lambda>r. replay_log (inv_product_id r) (inventory_logs db) 0 = Some (inv_quantity r))
       (inventory db)"

text \<open>
  The states the storage can be in: a database with any categories and no other row,
  and what \<open>create_product\<close>, \<open>update_inventory\<close> and \<open>create_order\<close> leave behind,
  whatever their arguments and whichever of their commits fail.
\<close>

inductive reachable :: "database \<Rightarrow> bool" where
  reachable_initial: "reachable (empty_db\<lparr>categories := cs\<rparr>)"
| reachable_create_product:
    "reachable db \<Longrightarrow> reachable (snd (create_product c1 c2 now product db))"
| reachable_update_inventory:
    "reachable db \<Longrightarrow> reachable (snd (update_inventory c now product_id upd db))"
| reachable_create_order:
    "reachable db \<Longrightarrow> reachable (snd (create_order c1 c2 now order_data db))"

section \<open>Notions used in the statements\<close>

text \<open>
  The quantity \<open>create_order\<close> reports as available: the quantity of the stock
  record, or 0 when the product has none.
\<close>

definition available_quantity :: "database \<Rightarrow> int \<Rightarrow> int" where
  "available_quantity db product_id =
     (case get_inventory_by_product_id db product_id of
        None \<Rightarrow> 0 | Some db_inventory \<Rightarrow> inv_quantity db_inventory)"

text \<open>
  The condition under which the validation loop raises at a line, and the error it
  raises there.
\<close>

definition line_fails :: "database \<Rightarrow> OrderItemCreate \<Rightarrow> bool" where
  "line_fails db item_data =
     (case get_product db (oic_product_id item_data) of
        None \<Rightarrow> True
      | Some db_product \<Rightarrow>
          (case get_inventory_by_product_id db (oic_product_id item_data) of
             None \<Rightarrow> True
           | Some db_inventory \<Rightarrow> inv_quantity db_inventory < oic_quantity item_data))"

definition line_error :: "database \<Rightarrow> OrderItemCreate \<Rightarrow> error" where
  "line_error db item_data =
     (case get_product db (oic_product_id item_data) of
        None \<Rightarrow> ValueError (product_not_found_msg (oic_product_id item_data))
      | Some db_product \<Rightarrow>
          ValueError (not_enough_stock_msg (p_name db_product) (oic_product_id item_data)
            (available_quantity db (oic_product_id item_data)) (oic_quantity item_data)))"

text \<open>
  What validation records for a line, and how an \<open>OrderItem\<close> row carries it.
\<close>

definition priced_line :: "database \<Rightarrow> OrderItemCreate \<Rightarrow> item_info \<Rightarrow> bool" where
  "priced_line db item_data info =
     (case info of (product_id, quantity, price_at_sale, subtotal) \<Rightarrow>
        product_id = oic_product_id item_data \<and> quantity = oic_quantity item_data
        \<and> (\<exists>p. get_product db product_id = Some p \<and> price_at_sale = p_price p)
        \<and> subtotal = price_at_sale * quantity)"

definition row_of_info :: "int \<Rightarrow> item_info \<Rightarrow> OrderItem \<Rightarrow> bool" where
  "row_of_info order_id info row =
     (case info of (product_id, quantity, price_at_sale, subtotal) \<Rightarrow>
        oi_order_id row = order_id \<and> oi_product_id row = product_id
        \<and> oi_quantity row = quantity \<and> oi_price_at_sale row = price_at_sale
        \<and> oi_subtotal row = subtotal)"

text \<open>
  The invariant of the storage that carries the audit property through every
  operation: keys are unique and below their sequence, every stock record and every
  log entry belongs to a product id already issued, and the log replays to the
  quantities on hand.
\<close>

definition storage_inv :: "database \<Rightarrow> bool" where
  "storage_inv db =
     (distinct (map inv_id (inventory db))
      \<and> list_all (\<lambda>r. inv_id r < inventory_seq db) (inventory db)
      \<and> distinct (map inv_product_id (inventory db))
      \<and> list_all (\<lambda>r. inv_product_id r < products_seq db) (inventory db)
      \<and> list_all (\<lambda>l. log_product_id l < products_seq db) (inventory_logs db)
      \<and> audit_complete db)"

text \<open>
  A mutation is a product id and a signed change of that product's quantity on hand.
  \<open>entries_match\<close> says that a list of log entries records a list of mutations, one
  entry for each mutation and in the same order: the entry carries the mutation's
  product and change, and as \<open>new_quantity\<close> the quantity that results when the change is
  applied to the quantity left by the mutations before it.
\<close>

fun entries_match :: "(int \<Rightarrow> int) \<Rightarrow> (int \<times> int) list \<Rightarrow> InventoryLog list \<Rightarrow> bool" where
  "entries_match quantity [] [] = True"
| "entries_match quantity ((product_id, change) # mutations) (entry # entries) =
     (log_product_id entry = product_id
      \<and> log_change_quantity entry = change
      \<and> log_new_quantity entry = quantity product_id + change
      \<and> entries_match (quantity(product_id := quantity product_id + change))
            mutations entries)"
| "entries_match quantity mutations entries = False"

fun apply_mutations :: "(int \<times> int) list \<Rightarrow> (int \<Rightarrow> int) \<Rightarrow> (int \<Rightarrow> int)" where
  "apply_mutations [] quantity = quantity"
| "apply_mutations ((product_id, change) # mutations) quantity =
     apply_mutations mutations (quantity(product_id := quantity product_id + change))"

text \<open>
  A step of the storage from \<open>db\<close> to \<open>db'\<close> is audited by a list of mutations when the
  log of \<open>db'\<close> is the log of \<open>db\<close> followed by entries that match the mutations, and the
  quantities on hand in \<open>db'\<close> are those of \<open>db\<close> with the mutations applied, for every
  product that has a stock record before or after the step or is named by a mutation.
\<close>

definition audited_by :: "database \<Rightarrow> database \<Rightarrow> (int \<times> int) list \<Rightarrow> bool" where
  "audited_by db db' mutations =
     (let n = length (inventory_logs db)
      in take n (inventory_logs db') = inventory_logs db
         \<and> entries_match (available_quantity db) mutations (drop n (inventory_logs db'))
         \<and> list_all (\<lambda>product_id. available_quantity db' product_id
                          = apply_mutations mutations (available_quantity db) product_id)
              (map inv_product_id (inventory db @ inventory db') @ map fst mutations))"

text \<open>The deductions of an order: one for each line, in the order of the lines.\<close>

definition order_mutations :: "OrderCreate \<Rightarrow> (int \<times> int) list" where
  "order_mutations order_data =
     map (\<lambda>item_data. (oic_product_id item_data, - oic_quantity item_data))
       (oc_items order_data)"

section \<open>Example states\<close>

text \<open>
  A storage with one category (\<open>catalog\<close>); one product of that category, \<open>Widget\<close>,
  priced 2.50, created with \<open>q\<close> units (\<open>stocked q\<close>); the state after an order of 2 + 3
  units against 5 units in stock (\<open>sold\<close>); and the state with a second product,
  \<open>Gadget\<close>, for which the second commit of \<open>create_product\<close> failed (\<open>mixed\<close>).
\<close>

definition catalog :: database where
  "catalog = empty_db\<lparr>categories :=
     [\<lparr>cat_id = 1, cat_name = ''Tools'', cat_description = None\<rparr>]\<rparr>"

definition sample_product :: "int \<Rightarrow> ProductCreate" where
  "sample_product q = \<lparr>pc_name = ''Widget'', pc_description = None, pc_price = 250,
     pc_category_id = 1, pc_sku = None, pc_initial_quantity = q,
     pc_low_stock_threshold = Some 10\<rparr>"

definition stocked :: "int \<Rightarrow> database" where
  "stocked q = snd (create_product True True (100, 0) (sample_product q) catalog)"

definition order_of :: "(int \<times> int) list \<Rightarrow> OrderCreate" where
  "order_of ls = \<lparr>oc_customer_name = None,
     oc_items = map (\<lambda>(p, q). \<lparr>oic_product_id = p, oic_quantity = q\<rparr>) ls\<rparr>"

definition sold :: database where
  "sold = snd (create_order True True (101, 0) (order_of [(1, 2), (1, 3)]) (stocked 5))"

definition mixed :: database where
  "mixed = snd (create_product True False (100, 0)
                  ((sample_product 5)\<lparr>pc_name := ''Gadget''\<rparr>) (stocked 5))"

section \<open>Evaluation of the example states\<close>

lemma str_int_small [simp]: "str_int 0 = ''0''" "str_int 1 = ''1''" "str_int 2 = ''2''"
  "str_int 3 = ''3''" "str_int 5 = ''5''" "str_int 6 = ''6''"
  by (simp_all add: str_int_def str_nat.simps)

lemma stocked_eq: "stocked q = \<lparr>categories = [\<lparr>cat_id = 1, cat_name = ''Tools'', cat_description = None\<rparr>],
   products = [\<lparr>p_id = 1, p_name = ''Widget'', p_description = None, p_price = 250,
                p_category_id = 1, p_sku = None, p_created_at = (100, 0),
                p_updated_at = (100, 0)\<rparr>],
   inventory = [\<lparr>inv_id = 1, inv_product_id = 1, inv_quantity = q,
                 inv_low_stock_threshold = 10, inv_last_updated = (100, 0)\<rparr>],
   inventory_logs = [\<lparr>log_id = 1, log_product_id = 1, log_change_quantity = q,
                      log_new_quantity = q, log_reason = Some ''Initial stock'',
                      log_timestamp = (100, 0)\<rparr>],
   orders = [], order_items = [], products_seq = 2, inventory_seq = 2,
   inventory_logs_seq = 2, orders_seq = 1, order_items_seq = 1\<rparr>"
  by (simp add: stocked_def catalog_def create_product_def sample_product_def empty_db_def
        Let_def)

lemma sold_eq: "sold = \<lparr>categories = [\<lparr>cat_id = 1, cat_name = ''Tools'', cat_description = None\<rparr>],
   products = [\<lparr>p_id = 1, p_name = ''Widget'', p_description = None, p_price = 250,
                p_category_id = 1, p_sku = None, p_created_at = (100, 0),
                p_updated_at = (100, 0)\<rparr>],
   inventory = [\<lparr>inv_id = 1, inv_product_id = 1, inv_quantity = 0,
                 inv_low_stock_threshold = 10, inv_last_updated = (101, 0)\<rparr>],
   inventory_logs = [\<lparr>log_id = 1, log_product_id = 1, log_change_quantity = 5,
                      log_new_quantity = 5, log_reason = Some ''Initial stock'',
                      log_timestamp = (100, 0)\<rparr>,
                     \<lparr>log_id = 2, log_product_id = 1, log_change_quantity = - 2,
                      log_new_quantity = 3, log_reason = Some ''Sale - Order ID: 1'',
                      log_timestamp = (101, 0)\<rparr>,
                     \<lparr>log_id = 3, log_product_id = 1, log_change_quantity = - 3,
                      log_new_quantity = 0, log_reason = Some ''Sale - Order ID: 1'',
                      log_timestamp = (101, 0)\<rparr>],
   orders = [\<lparr>o_id = 1, o_order_date = (101, 0), o_customer_name = None,
              o_status = ''completed'', o_total_amount = 1250\<rparr>],
   order_items = [\<lparr>oi_id = 1, oi_order_id = 1, oi_product_id = 1, oi_quantity = 2,
                   oi_price_at_sale = 250, oi_subtotal = 500\<rparr>,
                  \<lparr>oi_id = 2, oi_order_id = 1, oi_product_id = 1, oi_quantity = 3,
                   oi_price_at_sale = 250, oi_subtotal = 750\<rparr>],
   products_seq = 2, inventory_seq = 2, inventory_logs_seq = 4, orders_seq = 2,
   order_items_seq = 3\<rparr>"
  by (simp add: sold_def stocked_eq order_of_def create_order_def get_product_def
        get_inventory_by_product_id_def Let_def sale_reason_def)

lemma mixed_eq: "mixed = \<lparr>categories = [\<lparr>cat_id = 1, cat_name = ''Tools'', cat_description = None\<rparr>],
   products = [\<lparr>p_id = 1, p_name = ''Widget'', p_description = None, p_price = 250,
                p_category_id = 1, p_sku = None, p_created_at = (100, 0),
                p_updated_at = (100, 0)\<rparr>,
               \<lparr>p_id = 2, p_name = ''Gadget'', p_description = None, p_price = 250,
                p_category_id = 1, p_sku = None, p_created_at = (100, 0),
                p_updated_at = (100, 0)\<rparr>],
   inventory = [\<lparr>inv_id = 1, inv_product_id = 1, inv_quantity = 5,
                 inv_low_stock_threshold = 10, inv_last_updated = (100, 0)\<rparr>],
   inventory_logs = [\<lparr>log_id = 1, log_product_id = 1, log_change_quantity = 5,
                      log_new_quantity = 5, log_reason = Some ''Initial stock'',
                      log_timestamp = (100, 0)\<rparr>],
   orders = [], order_items = [], products_seq = 3, inventory_seq = 2,
   inventory_logs_seq = 2, orders_seq = 1, order_items_seq = 1\<rparr>"
  by (simp add: mixed_def stocked_eq create_product_def sample_product_def Let_def)

section \<open>The validation loop\<close>

lemma validate_items_first_failure:
  "find (line_fails db) its = Some bad \<Longrightarrow> validate_items db its acc = Inl (line_error db bad)"
proof (induction its arbitrary: acc)
  case Nil
  then show ?case by simp
next
  case (Cons it its)
  obtain t c u where acc: "acc = (t, c, u)" by (cases acc) auto
  show ?case
  proof (cases "line_fails db it")
    case True
    with Cons.prems have "bad = it" by simp
    with True show ?thesis
      by (auto simp: acc line_fails_def line_error_def available_quantity_def
               split: option.splits)
  next
    case False
    with Cons.prems have "find (line_fails db) its = Some bad" by simp
    from Cons.IH[OF this] False show ?thesis
      by (auto simp: acc line_fails_def Let_def split: option.splits)
  qed
qed

lemma validate_items_priced:
  "validate_items db its (t, c, u) = Inr (t', c', u') \<Longrightarrow>
     \<exists>cs. c' = c @ cs \<and> list_all2 (priced_line db) its cs
          \<and> t' = t + sum_list (map (\<lambda>(_, _, _, s). s) cs)"
proof (induction its arbitrary: t c u)
  case Nil
  then show ?case by simp
next
  case (Cons it its)
  from Cons.prems have "\<exists>p (r::int). get_product db (oic_product_id it) = Some p \<and>
      validate_items db its
        (t + p_price p * oic_quantity it,
         c @ [(oic_product_id it, oic_quantity it, p_price p, p_price p * oic_quantity it)],
         u @ [(oic_product_id it, oic_quantity it, r)]) = Inr (t', c', u')"
    by (auto simp: Let_def split: option.splits if_splits)
  then obtain p r where
    p: "get_product db (oic_product_id it) = Some p" and
    rest: "validate_items db its
        (t + p_price p * oic_quantity it,
         c @ [(oic_product_id it, oic_quantity it, p_price p, p_price p * oic_quantity it)],
         u @ [(oic_product_id it, oic_quantity it, r)]) = Inr (t', c', u')"
    by blast
  from Cons.IH[OF rest] obtain cs where
    cs: "c' = (c @ [(oic_product_id it, oic_quantity it, p_price p, p_price p * oic_quantity it)]) @ cs"
        "list_all2 (priced_line db) its cs"
        "t' = t + p_price p * oic_quantity it + sum_list (map (\<lambda>(_, _, _, s). s) cs)"
    by blast
  let ?cs = "(oic_product_id it, oic_quantity it, p_price p, p_price p * oic_quantity it) # cs"
  have "c' = c @ ?cs" using cs(1) by simp
  moreover have "list_all2 (priced_line db) (it # its) ?cs"
    using cs(2) p by (simp add: priced_line_def)
  moreover have "t' = t + sum_list (map (\<lambda>(_, _, _, s). s) ?cs)"
    using cs(3) by simp
  ultimately show ?case by blast
qed

section \<open>The commit loops\<close>

lemma add_order_items_rows:
  "\<exists>new. order_items (add_order_items order_id cs db) = order_items db @ new
         \<and> list_all2 (row_of_info order_id) cs new"
proof (induction cs arbitrary: db)
  case Nil
  then show ?case by simp
next
  case (Cons info cs)
  obtain pid q pr s where info: "info = (pid, q, pr, s)" by (cases info) auto
  let ?row = "\<lparr>oi_id = order_items_seq db, oi_order_id = order_id, oi_product_id = pid,
                oi_quantity = q, oi_price_at_sale = pr, oi_subtotal = s\<rparr>"
  let ?db = "db\<lparr>order_items := order_items db @ [?row],
                order_items_seq := order_items_seq db + 1\<rparr>"
  from Cons.IH[of ?db] obtain new where
    new: "order_items (add_order_items order_id cs ?db) = order_items ?db @ new"
         "list_all2 (row_of_info order_id) cs new" by blast
  have "order_items (add_order_items order_id (info # cs) db) = order_items db @ (?row # new)"
    using new(1) by (simp add: info)
  moreover have "list_all2 (row_of_info order_id) (info # cs) (?row # new)"
    using new(2) by (simp add: info row_of_info_def)
  ultimately show ?case by blast
qed

lemma add_order_items_orders [simp]:
  "orders (add_order_items order_id cs db) = orders db"
  by (induction order_id cs db rule: add_order_items.induct) auto

lemma add_order_items_frame [simp]:
  "inventory (add_order_items order_id cs db) = inventory db"
  "inventory_logs (add_order_items order_id cs db) = inventory_logs db"
  "products_seq (add_order_items order_id cs db) = products_seq db"
  "inventory_seq (add_order_items order_id cs db) = inventory_seq db"
  by (induction order_id cs db rule: add_order_items.induct) auto

lemma deduct_inventory_order_items [simp]:
  "order_items (deduct_inventory now order_id us db) = order_items db"
  by (induction now order_id us db rule: deduct_inventory.induct)
     (auto simp: Let_def split: option.splits)

lemma deduct_inventory_orders [simp]:
  "orders (deduct_inventory now order_id us db) = orders db"
  by (induction now order_id us db rule: deduct_inventory.induct)
     (auto simp: Let_def split: option.splits)

lemma find_map_replace:
  assumes "find P xs = Some r" and "P u"
  shows "find P (map (\<lambda>x. if k x = k r then u else x) xs) = Some u"
  using assms by (induction xs) (auto split: if_splits)

section \<open>Preservation of the storage invariant\<close>

lemma replay_log_append:
  "replay_log pid (xs @ ys) q =
     (case replay_log pid xs q of None \<Rightarrow> None | Some q' \<Rightarrow> replay_log pid ys q')"
  by (induction xs arbitrary: q) auto

lemma replay_log_other:
  "\<forall>l \<in> set ls. log_product_id l \<noteq> pid \<Longrightarrow> replay_log pid ls q = Some q"
  by (induction ls arbitrary: q) auto

lemma storage_inv_row_update:
  assumes inv: "storage_inv db"
    and found: "get_inventory_by_product_id db pid = Some r0"
    and u: "inv_id u = inv_id r0" "inv_product_id u = pid"
    and inv': "inventory db' = map (\<lambda>r. if inv_id r = inv_id r0 then u else r) (inventory db)"
    and logs': "inventory_logs db' = inventory_logs db @ new"
    and new: "replay_log pid new (inv_quantity r0) = Some (inv_quantity u)"
             "\<forall>l \<in> set new. log_product_id l = pid"
    and seqs: "products_seq db' = products_seq db" "inventory_seq db' = inventory_seq db"
  shows "storage_inv db'"
proof -
  from found have r0: "r0 \<in> set (inventory db)" "inv_product_id r0 = pid"
    by (auto simp: get_inventory_by_product_id_def find_Some_iff)
  from inv have d_id: "distinct (map inv_id (inventory db))"
    and d_pid: "distinct (map inv_product_id (inventory db))"
    and b_id: "\<forall>r \<in> set (inventory db). inv_id r < inventory_seq db"
    and b_pid: "\<forall>r \<in> set (inventory db). inv_product_id r < products_seq db"
    and b_log: "\<forall>l \<in> set (inventory_logs db). log_product_id l < products_seq db"
    and audit: "\<forall>r \<in> set (inventory db).
                  replay_log (inv_product_id r) (inventory_logs db) 0 = Some (inv_quantity r)"
    by (auto simp: storage_inv_def audit_complete_def list_all_iff)
  have same: "\<And>r. r \<in> set (inventory db) \<Longrightarrow> inv_id r = inv_id r0 \<Longrightarrow> r = r0"
    using d_id r0(1) by (meson distinct_map inj_onD)
  have other: "\<And>r. r \<in> set (inventory db) \<Longrightarrow> inv_id r \<noteq> inv_id r0 \<Longrightarrow> inv_product_id r \<noteq> pid"
    using d_pid r0 by (metis distinct_map inj_onD)
  have ids: "map inv_id (inventory db') = map inv_id (inventory db)"
    unfolding inv' using u(1) by simp
  have pids: "map inv_product_id (inventory db') = map inv_product_id (inventory db)"
  proof -
    have "\<And>r. r \<in> set (inventory db) \<Longrightarrow> inv_id r = inv_id r0 \<Longrightarrow>
            inv_product_id u = inv_product_id r"
      using same u(2) r0(2) by metis
    then show ?thesis unfolding inv' by simp
  qed
  have rows: "\<And>r. r \<in> set (inventory db') \<Longrightarrow>
                 r = u \<or> (r \<in> set (inventory db) \<and> inv_id r \<noteq> inv_id r0)"
    unfolding inv' by auto
  have 1: "distinct (map inv_id (inventory db'))" using d_id ids by simp
  have 2: "\<forall>r \<in> set (inventory db'). inv_id r < inventory_seq db'"
    using rows b_id r0(1) u(1) seqs by fastforce
  have 3: "distinct (map inv_product_id (inventory db'))" using d_pid pids by simp
  have 4: "\<forall>r \<in> set (inventory db'). inv_product_id r < products_seq db'"
    using rows b_pid r0 u(2) seqs by fastforce
  have 5: "\<forall>l \<in> set (inventory_logs db'). log_product_id l < products_seq db'"
    using b_log new(2) b_pid r0 seqs by (auto simp: logs')
  have 6: "\<forall>r \<in> set (inventory db').
             replay_log (inv_product_id r) (inventory_logs db') 0 = Some (inv_quantity r)"
  proof
    fix r assume "r \<in> set (inventory db')"
    from rows[OF this] show "replay_log (inv_product_id r) (inventory_logs db') 0
                               = Some (inv_quantity r)"
    proof
      assume "r = u"
      moreover have "replay_log pid (inventory_logs db) 0 = Some (inv_quantity r0)"
        using audit r0 by auto
      ultimately show ?thesis using new(1) u(2) by (simp add: logs' replay_log_append)
    next
      assume r: "r \<in> set (inventory db) \<and> inv_id r \<noteq> inv_id r0"
      then have "inv_product_id r \<noteq> pid" using other by blast
      then have "replay_log (inv_product_id r) new (inv_quantity r) = Some (inv_quantity r)"
        using new(2) by (intro replay_log_other) auto
      then show ?thesis using audit r by (simp add: logs' replay_log_append)
    qed
  qed
  from 1 2 3 4 5 6 show ?thesis
    by (simp add: storage_inv_def audit_complete_def list_all_iff)
qed

lemma storage_inv_frame:
  assumes "storage_inv db" "inventory db' = inventory db"
    "inventory_logs db' = inventory_logs db"
    "products_seq db \<le> products_seq db'" "inventory_seq db \<le> inventory_seq db'"
  shows "storage_inv db'"
  using assms by (fastforce simp: storage_inv_def audit_complete_def list_all_iff)

lemma storage_inv_initial: "storage_inv (empty_db\<lparr>categories := cs\<rparr>)"
  by (simp add: storage_inv_def audit_complete_def empty_db_def)

lemma storage_inv_create_product:
  assumes "storage_inv db"
  shows "storage_inv (snd (create_product c1 c2 now product db))"
proof -
  let ?p = "\<lparr>p_id = products_seq db, p_name = pc_name product,
            p_description = pc_description product, p_price = pc_price product,
            p_category_id = pc_category_id product, p_sku = pc_sku product,
            p_created_at = now, p_updated_at = now\<rparr>"
  let ?db1 = "db\<lparr>products := products db @ [?p], products_seq := products_seq db + 1\<rparr>"
  let ?r = "\<lparr>inv_id = inventory_seq db, inv_product_id = products_seq db,
             inv_quantity = pc_initial_quantity product,
             inv_low_stock_threshold =
               (case pc_low_stock_threshold product of Some t \<Rightarrow> t | None \<Rightarrow> 10),
             inv_last_updated = now\<rparr>"
  let ?l = "\<lparr>log_id = inventory_logs_seq db, log_product_id = products_seq db,
             log_change_quantity = pc_initial_quantity product,
             log_new_quantity = pc_initial_quantity product,
             log_reason = Some ''Initial stock'', log_timestamp = now\<rparr>"
  let ?db2 = "?db1\<lparr>inventory := inventory db @ [?r],
                     inventory_seq := inventory_seq db + 1,
                     inventory_logs := inventory_logs db @ [?l],
                     inventory_logs_seq := inventory_logs_seq db + 1\<rparr>"
  have res: "snd (create_product c1 c2 now product db)
               = (if \<not> c1 then db else if \<not> c2 then ?db1 else ?db2)"
    by (simp add: create_product_def Let_def)
  have s1: "storage_inv ?db1" using assms by (rule storage_inv_frame) simp_all
  from assms have d_id: "distinct (map inv_id (inventory db))"
    and d_pid: "distinct (map inv_product_id (inventory db))"
    and b_id: "\<forall>r \<in> set (inventory db). inv_id r < inventory_seq db"
    and b_pid: "\<forall>r \<in> set (inventory db). inv_product_id r < products_seq db"
    and b_log: "\<forall>l \<in> set (inventory_logs db). log_product_id l < products_seq db"
    and audit: "\<forall>r \<in> set (inventory db).
                  replay_log (inv_product_id r) (inventory_logs db) 0 = Some (inv_quantity r)"
    by (auto simp: storage_inv_def audit_complete_def list_all_iff)
  have fresh: "replay_log (products_seq db) (inventory_logs db) 0 = Some 0"
    using b_log by (intro replay_log_other) auto
  have 1: "distinct (map inv_id (inventory ?db2))" using d_id b_id by auto
  have 2: "\<forall>r \<in> set (inventory ?db2). inv_id r < inventory_seq ?db2"
    using b_id by auto
  have 3: "distinct (map inv_product_id (inventory ?db2))" using d_pid b_pid by auto
  have 4: "\<forall>r \<in> set (inventory ?db2). inv_product_id r < products_seq ?db2"
    using b_pid by auto
  have 5: "\<forall>l \<in> set (inventory_logs ?db2). log_product_id l < products_seq ?db2"
    using b_log by auto
  have 6: "\<forall>r \<in> set (inventory ?db2).
             replay_log (inv_product_id r) (inventory_logs ?db2) 0 = Some (inv_quantity r)"
    using audit b_pid fresh by (auto simp: replay_log_append)
  from 1 2 3 4 5 6 have s2: "storage_inv ?db2"
    unfolding storage_inv_def audit_complete_def list_all_iff by blast
  show ?thesis unfolding res using assms s1 s2 by presburger
qed

lemma storage_inv_update_inventory:
  assumes "storage_inv db"
  shows "storage_inv (snd (update_inventory c now product_id upd db))"
proof (cases "get_inventory_by_product_id db product_id")
  case None
  then show ?thesis using assms by (simp add: update_inventory_def)
next
  case (Some r0)
  define target where "target = (case iu_quantity_change upd of
        Some c \<Rightarrow> inv_quantity r0 + c
      | None \<Rightarrow> (case iu_absolute_quantity upd of Some a \<Rightarrow> a | None \<Rightarrow> inv_quantity r0))"
  define q where "q = (if target < 0 then 0 else target)"
  define u where "u = r0\<lparr>inv_quantity := q,
        inv_low_stock_threshold :=
          (case iu_low_stock_threshold upd of
             Some t \<Rightarrow> t | None \<Rightarrow> inv_low_stock_threshold r0),
        inv_last_updated := now\<rparr>"
  define logged where "logged = (q - inv_quantity r0 \<noteq> 0
        \<or> (case iu_quantity_change upd of Some c \<Rightarrow> c \<noteq> 0 | None \<Rightarrow> False)
        \<or> (case iu_absolute_quantity upd of
              Some a \<Rightarrow> a \<noteq> inv_quantity r0 | None \<Rightarrow> False))"
  define new where "new = (if logged then
        [\<lparr>log_id = inventory_logs_seq db, log_product_id = product_id,
          log_change_quantity = q - inv_quantity r0, log_new_quantity = q,
          log_reason = Some (case iu_reason upd of None \<Rightarrow> ''Manual update''
                             | Some r \<Rightarrow> if r = [] then ''Manual update'' else r),
          log_timestamp = now\<rparr>] else [])"
  define db' where "db' = snd (update_inventory True now product_id upd db)"
  have res: "snd (update_inventory c now product_id upd db) = (if c then db' else db)"
    by (simp add: db'_def update_inventory_def Some Let_def)
  have i: "inventory db' = map (\<lambda>r. if inv_id r = inv_id r0 then u else r) (inventory db)"
    by (simp add: db'_def update_inventory_def Some Let_def u_def q_def target_def)
  have l: "inventory_logs db' = inventory_logs db @ new"
    by (simp add: db'_def update_inventory_def Some Let_def new_def logged_def q_def target_def)
  have s: "products_seq db' = products_seq db" "inventory_seq db' = inventory_seq db"
    by (simp_all add: db'_def update_inventory_def Some Let_def)
  from Some have pid: "inv_product_id r0 = product_id"
    by (auto simp: get_inventory_by_product_id_def find_Some_iff)
  have n1: "replay_log product_id new (inv_quantity r0) = Some (inv_quantity u)"
    by (auto simp: new_def u_def logged_def)
  have n2: "\<forall>l \<in> set new. log_product_id l = product_id"
    by (simp add: new_def)
  have "storage_inv db'"
    using assms Some _ _ i l n1 n2 s
    by (rule storage_inv_row_update) (simp_all add: u_def pid)
  then show ?thesis using assms by (simp add: res)
qed

lemma storage_inv_deduct_inventory:
  "storage_inv db \<Longrightarrow> storage_inv (deduct_inventory now order_id us db)"
proof (induction now order_id us db rule: deduct_inventory.induct)
  case (1 now order_id db)
  then show ?case by simp
next
  case (2 now order_id product_id quantity_deducted original_inv_qty rest db)
  show ?case
  proof (cases "get_inventory_by_product_id db product_id")
    case None
    then show ?thesis using 2 by simp
  next
    case (Some r0)
    let ?u = "r0\<lparr>inv_quantity := inv_quantity r0 - quantity_deducted,
                  inv_last_updated := now\<rparr>"
    let ?l = "\<lparr>log_id = inventory_logs_seq db, log_product_id = product_id,
               log_change_quantity = - quantity_deducted,
               log_new_quantity = inv_quantity r0 - quantity_deducted,
               log_reason = Some (sale_reason order_id), log_timestamp = now\<rparr>"
    let ?db = "db\<lparr>inventory := map (\<lambda>r. if inv_id r = inv_id r0 then ?u else r) (inventory db),
                  inventory_logs := inventory_logs db @ [?l],
                  inventory_logs_seq := inventory_logs_seq db + 1\<rparr>"
    from Some have pid: "inv_product_id r0 = product_id"
      by (auto simp: get_inventory_by_product_id_def find_Some_iff)
    have "storage_inv ?db"
      using "2.prems" Some
      by (rule storage_inv_row_update[where u = ?u and new = "[?l]"]) (simp_all add: pid)
    from "2.IH"(2)[OF Some refl refl this] show ?thesis
      by (simp add: Some Let_def)
  qed
qed

lemma storage_inv_create_order:
  assumes "storage_inv db"
  shows "storage_inv (snd (create_order c1 c2 now order_data db))"
proof (cases "validate_items db (oc_items order_data) (0, [], [])")
  case (Inl e)
  then show ?thesis using assms by (simp add: create_order_def)
next
  case (Inr res)
  obtain t c u where res: "res = (t, c, u)" by (cases res) auto
  let ?ord = "\<lparr>o_id = orders_seq db, o_order_date = now,
                o_customer_name = oc_customer_name order_data,
                o_status = ''completed'', o_total_amount = t\<rparr>"
  let ?db1 = "db\<lparr>orders := orders db @ [?ord], orders_seq := orders_seq db + 1\<rparr>"
  let ?db3 = "deduct_inventory now (orders_seq db) u (add_order_items (orders_seq db) c ?db1)"
  have out: "snd (create_order c1 c2 now order_data db)
               = (if \<not> c1 then db else if \<not> c2 then ?db1 else ?db3)"
    by (simp add: create_order_def Inr res Let_def)
  have s1: "storage_inv ?db1" using assms by (rule storage_inv_frame) simp_all
  have "storage_inv (add_order_items (orders_seq db) c ?db1)"
    using assms by (rule storage_inv_frame) simp_all
  then have s3: "storage_inv ?db3" by (rule storage_inv_deduct_inventory)
  show ?thesis unfolding out using assms s1 s3 by presburger
qed

lemma reachable_storage_inv: "reachable db \<Longrightarrow> storage_inv db"
  by (induction rule: reachable.induct)
     (simp_all add: storage_inv_initial storage_inv_create_product
        storage_inv_update_inventory storage_inv_create_order)

section \<open>Log entries appended by each operation\<close>

lemma audited_byI:
  assumes "inventory_logs db' = inventory_logs db @ entries"
    and "entries_match (available_quantity db) mutations entries"
    and "\<And>p. available_quantity db' p = apply_mutations mutations (available_quantity db) p"
  shows "audited_by db db' mutations"
  using assms by (simp add: audited_by_def list_all_iff)

lemma audited_by_unchanged:
  assumes "inventory_logs db' = inventory_logs db" and "inventory db' = inventory db"
  shows "audited_by db db' []"
  using assms
  by (simp add: audited_by_def list_all_iff available_quantity_def
        get_inventory_by_product_id_def)

lemma find_replace_other:
  assumes "\<not> P u" and "\<And>x. x \<in> set xs \<Longrightarrow> k x = k0 \<Longrightarrow> \<not> P x"
  shows "find P (map (\<lambda>x. if k x = k0 then u else x) xs) = find P xs"
  using assms by (induction xs) auto

lemma row_update_quantities:
  assumes inv: "storage_inv db"
    and found: "get_inventory_by_product_id db pid = Some r0"
    and u: "inv_id u = inv_id r0" "inv_product_id u = pid"
    and inv': "inventory db' = map (\<lambda>r. if inv_id r = inv_id r0 then u else r) (inventory db)"
  shows "available_quantity db' p = (if p = pid then inv_quantity u else available_quantity db p)"
    and "(get_inventory_by_product_id db' p = None) = (get_inventory_by_product_id db p = None)"
proof -
  from found have r0: "r0 \<in> set (inventory db)" "inv_product_id r0 = pid"
    by (auto simp: get_inventory_by_product_id_def find_Some_iff)
  from inv have d_id: "distinct (map inv_id (inventory db))"
    by (simp add: storage_inv_def)
  have same: "\<And>r. r \<in> set (inventory db) \<Longrightarrow> inv_id r = inv_id r0 \<Longrightarrow> r = r0"
    using d_id r0(1) by (meson distinct_map inj_onD)
  have at: "get_inventory_by_product_id db' pid = Some u"
    using found u(2) unfolding get_inventory_by_product_id_def inv'
    by (simp add: find_map_replace)
  have other: "p \<noteq> pid \<Longrightarrow> get_inventory_by_product_id db' p = get_inventory_by_product_id db p"
  proof -
    assume ne: "p \<noteq> pid"
    have "find (\<lambda>r. inv_product_id r = p)
            (map (\<lambda>r. if inv_id r = inv_id r0 then u else r) (inventory db))
          = find (\<lambda>r. inv_product_id r = p) (inventory db)"
      using ne u(2) same r0(2) by (intro find_replace_other) auto
    then show ?thesis by (simp add: get_inventory_by_product_id_def inv')
  qed
  show "available_quantity db' p = (if p = pid then inv_quantity u else available_quantity db p)"
    using at other by (simp add: available_quantity_def)
  show "(get_inventory_by_product_id db' p = None) = (get_inventory_by_product_id db p = None)"
    using at other found by (cases "p = pid") auto
qed

lemma find_snoc:
  "find P (xs @ [x]) = (case find P xs of Some y \<Rightarrow> Some y | None \<Rightarrow> if P x then Some x else None)"
  by (induction xs) auto

lemma audited_create_product:
  assumes "storage_inv db"
  shows "audited_by db (snd (create_product c1 c2 now product db))
           (if c1 \<and> c2 then [(products_seq db, pc_initial_quantity product)] else [])"
proof (cases "c1 \<and> c2")
  case False
  then show ?thesis
    by (auto simp: create_product_def Let_def intro!: audited_by_unchanged)
next
  case True
  let ?pid = "products_seq db"
  let ?db' = "snd (create_product c1 c2 now product db)"
  from assms have b_pid: "\<forall>r \<in> set (inventory db). inv_product_id r < products_seq db"
    by (simp add: storage_inv_def list_all_iff)
  then have none: "find (\<lambda>r. inv_product_id r = ?pid) (inventory db) = None"
    by (auto simp: find_None_iff)
  then have zero: "available_quantity db ?pid = 0"
    by (simp add: available_quantity_def get_inventory_by_product_id_def)
  have l: "inventory_logs ?db' = inventory_logs db @
      [\<lparr>log_id = inventory_logs_seq db, log_product_id = ?pid,
        log_change_quantity = pc_initial_quantity product,
        log_new_quantity = pc_initial_quantity product,
        log_reason = Some ''Initial stock'', log_timestamp = now\<rparr>]"
    using True by (simp add: create_product_def Let_def)
  have q: "\<And>p. available_quantity ?db' p
             = (if p = ?pid then pc_initial_quantity product else available_quantity db p)"
    using True none
    by (auto simp: create_product_def Let_def available_quantity_def
          get_inventory_by_product_id_def find_snoc split: option.splits)
  show ?thesis
    using True l zero q by (intro audited_byI[OF l]) simp_all
qed

lemma audited_update_inventory:
  assumes "storage_inv db"
  shows "audited_by db (snd (update_inventory c now product_id upd db))
           (if inventory_logs (snd (update_inventory c now product_id upd db))
                 = inventory_logs db
            then []
            else [(product_id,
                   available_quantity (snd (update_inventory c now product_id upd db)) product_id
                     - available_quantity db product_id)])"
proof (cases "get_inventory_by_product_id db product_id")
  case None
  then have "snd (update_inventory c now product_id upd db) = db"
    by (simp add: update_inventory_def)
  then show ?thesis by (simp add: audited_by_unchanged)
next
  case (Some r0)
  show ?thesis
  proof (cases c)
    case False
    then have "snd (update_inventory c now product_id upd db) = db"
      by (simp add: update_inventory_def Some Let_def)
    then show ?thesis by (simp add: audited_by_unchanged)
  next
    case True
    define target where "target = (case iu_quantity_change upd of
          Some c \<Rightarrow> inv_quantity r0 + c
        | None \<Rightarrow> (case iu_absolute_quantity upd of Some a \<Rightarrow> a | None \<Rightarrow> inv_quantity r0))"
    define q where "q = (if target < 0 then 0 else target)"
    define u where "u = r0\<lparr>inv_quantity := q,
          inv_low_stock_threshold :=
            (case iu_low_stock_threshold upd of
               Some t \<Rightarrow> t | None \<Rightarrow> inv_low_stock_threshold r0),
          inv_last_updated := now\<rparr>"
    define logged where "logged = (q - inv_quantity r0 \<noteq> 0
          \<or> (case iu_quantity_change upd of Some c \<Rightarrow> c \<noteq> 0 | None \<Rightarrow> False)
          \<or> (case iu_absolute_quantity upd of
                Some a \<Rightarrow> a \<noteq> inv_quantity r0 | None \<Rightarrow> False))"
    define entry where "entry =
          \<lparr>log_id = inventory_logs_seq db, log_product_id = product_id,
            log_change_quantity = q - inv_quantity r0, log_new_quantity = q,
            log_reason = Some (case iu_reason upd of None \<Rightarrow> ''Manual update''
                               | Some r \<Rightarrow> if r = [] then ''Manual update'' else r),
            log_timestamp = now\<rparr>"
    define db' where "db' = snd (update_inventory c now product_id upd db)"
    have i: "inventory db' = map (\<lambda>r. if inv_id r = inv_id r0 then u else r) (inventory db)"
      using True
      by (simp add: db'_def update_inventory_def Some Let_def u_def q_def target_def)
    have l: "inventory_logs db' = inventory_logs db @ (if logged then [entry] else [])"
      using True
      by (simp add: db'_def update_inventory_def Some Let_def entry_def logged_def q_def
            target_def)
    from Some have pid: "inv_product_id r0 = product_id"
      by (auto simp: get_inventory_by_product_id_def find_Some_iff)
    have before: "available_quantity db product_id = inv_quantity r0"
      by (simp add: available_quantity_def Some)
    have after: "\<And>p. available_quantity db' p
                   = (if p = product_id then q else available_quantity db p)"
      using row_update_quantities(1)[OF assms Some _ _ i, of p for p]
      by (simp add: u_def pid)
    show ?thesis
    proof (cases logged)
      case True
      then have l1: "inventory_logs db' = inventory_logs db @ [entry]" using l by simp
      have "audited_by db db' [(product_id, q - inv_quantity r0)]"
        using before after by (intro audited_byI[OF l1]) (simp_all add: entry_def)
      then show ?thesis using l1 before after by (simp add: db'_def[symmetric])
    next
      case False
      then have l0: "inventory_logs db' = inventory_logs db" using l by simp
      from False have "q = inv_quantity r0" by (simp add: logged_def)
      then have "audited_by db db' []"
        using before after by (intro audited_byI[where entries = "[]"]) (simp_all add: l0)
      then show ?thesis using l0 by (simp add: db'_def[symmetric])
    qed
  qed
qed

lemma deduct_inventory_audited:
  assumes "storage_inv db"
    and "\<forall>x \<in> set us. get_inventory_by_product_id db (fst x) \<noteq> None"
  shows "\<exists>es. inventory_logs (deduct_inventory now order_id us db) = inventory_logs db @ es
           \<and> entries_match (available_quantity db) (map (\<lambda>(p, q, w). (p, - q)) us) es
           \<and> (\<forall>p. available_quantity (deduct_inventory now order_id us db) p
                  = apply_mutations (map (\<lambda>(p, q, w). (p, - q)) us) (available_quantity db) p)"
  using assms
proof (induction now order_id us db rule: deduct_inventory.induct)
  case (1 now order_id db)
  then show ?case by simp
next
  case (2 now order_id product_id quantity_deducted original_inv_qty rest db)
  from "2.prems"(2) obtain r0 where
    Some: "get_inventory_by_product_id db product_id = Some r0" by auto
  let ?u = "r0\<lparr>inv_quantity := inv_quantity r0 - quantity_deducted,
                inv_last_updated := now\<rparr>"
  let ?l = "\<lparr>log_id = inventory_logs_seq db, log_product_id = product_id,
             log_change_quantity = - quantity_deducted,
             log_new_quantity = inv_quantity r0 - quantity_deducted,
             log_reason = Some (sale_reason order_id), log_timestamp = now\<rparr>"
  let ?db = "db\<lparr>inventory := map (\<lambda>r. if inv_id r = inv_id r0 then ?u else r) (inventory db),
                inventory_logs := inventory_logs db @ [?l],
                inventory_logs_seq := inventory_logs_seq db + 1\<rparr>"
  from Some have pid: "inv_product_id r0 = product_id"
    by (auto simp: get_inventory_by_product_id_def find_Some_iff)
  have inv1: "storage_inv ?db"
    using "2.prems"(1) Some
    by (rule storage_inv_row_update[where u = ?u and new = "[?l]"]) (simp_all add: pid)
  have before: "available_quantity db product_id = inv_quantity r0"
    by (simp add: available_quantity_def Some)
  have q1: "available_quantity ?db
              = (available_quantity db)(product_id := available_quantity db product_id
                                                       - quantity_deducted)"
    using row_update_quantities(1)[OF "2.prems"(1) Some, where u = ?u and db' = ?db]
    by (auto simp: pid before)
  have rec1: "\<forall>x \<in> set rest. get_inventory_by_product_id ?db (fst x) \<noteq> None"
    using row_update_quantities(2)[OF "2.prems"(1) Some, where u = ?u and db' = ?db]
      "2.prems"(2)
    by (simp add: pid)
  from "2.IH"(2)[OF Some refl refl inv1 rec1] obtain es where
    es: "inventory_logs (deduct_inventory now order_id rest ?db) = inventory_logs ?db @ es"
      "entries_match (available_quantity ?db) (map (\<lambda>(p, q, w). (p, - q)) rest) es"
      "\<forall>p. available_quantity (deduct_inventory now order_id rest ?db) p
            = apply_mutations (map (\<lambda>(p, q, w). (p, - q)) rest) (available_quantity ?db) p"
    by blast
  have step: "deduct_inventory now order_id ((product_id, quantity_deducted, original_inv_qty) # rest) db
        = deduct_inventory now order_id rest ?db"
    by (simp add: Some Let_def)
  show ?case
    unfolding step
    using es before by (intro exI[of _ "?l # es"]) (simp add: q1)
qed

lemma validate_items_updates:
  "validate_items db its (t, c, u) = Inr (t', c', u') \<Longrightarrow>
     \<exists>us. u' = u @ us
          \<and> map (\<lambda>(p, q, w). (p, - q)) us
              = map (\<lambda>it. (oic_product_id it, - oic_quantity it)) its
          \<and> (\<forall>x \<in> set us. get_inventory_by_product_id db (fst x) \<noteq> None)"
proof (induction its arbitrary: t c u)
  case Nil
  then show ?case by simp
next
  case (Cons it its)
  from Cons.prems have "\<exists>p (r::int). get_inventory_by_product_id db (oic_product_id it) \<noteq> None \<and>
      validate_items db its
        (t + p * oic_quantity it,
         c @ [(oic_product_id it, oic_quantity it, p, p * oic_quantity it)],
         u @ [(oic_product_id it, oic_quantity it, r)]) = Inr (t', c', u')"
    by (auto simp: Let_def split: option.splits if_splits)
  then obtain p r where
    rec: "get_inventory_by_product_id db (oic_product_id it) \<noteq> None" and
    rest: "validate_items db its
        (t + p * oic_quantity it,
         c @ [(oic_product_id it, oic_quantity it, p, p * oic_quantity it)],
         u @ [(oic_product_id it, oic_quantity it, r)]) = Inr (t', c', u')"
    by blast
  from Cons.IH[OF rest] obtain us where
    us: "u' = (u @ [(oic_product_id it, oic_quantity it, r)]) @ us"
        "map (\<lambda>(p, q, w). (p, - q)) us = map (\<lambda>it. (oic_product_id it, - oic_quantity it)) its"
        "\<forall>x \<in> set us. get_inventory_by_product_id db (fst x) \<noteq> None"
    by blast
  show ?case
    using us rec by (intro exI[of _ "(oic_product_id it, oic_quantity it, r) # us"]) simp
qed

lemma audited_create_order:
  assumes "storage_inv db"
  shows "audited_by db (snd (create_order c1 c2 now order_data db))
           (case fst (create_order c1 c2 now order_data db) of
              Inl e \<Rightarrow> [] | Inr db_order \<Rightarrow> order_mutations order_data)"
proof (cases "validate_items db (oc_items order_data) (0, [], [])")
  case (Inl e)
  then show ?thesis by (simp add: create_order_def audited_by_unchanged)
next
  case (Inr res)
  obtain t c u where res: "res = (t, c, u)" by (cases res) auto
  let ?ord = "\<lparr>o_id = orders_seq db, o_order_date = now,
                o_customer_name = oc_customer_name order_data,
                o_status = ''completed'', o_total_amount = t\<rparr>"
  let ?db1 = "db\<lparr>orders := orders db @ [?ord], orders_seq := orders_seq db + 1\<rparr>"
  let ?db2 = "add_order_items (orders_seq db) c ?db1"
  let ?db3 = "deduct_inventory now (orders_seq db) u ?db2"
  show ?thesis
  proof (cases "c1 \<and> c2")
    case False
    then show ?thesis
      by (auto simp: create_order_def Inr res Let_def intro!: audited_by_unchanged)
  next
    case True
    then have out: "create_order c1 c2 now order_data db = (Inr ?ord, ?db3)"
      by (simp add: create_order_def Inr res Let_def)
    from validate_items_updates[OF Inr[unfolded res]] have
      muts: "map (\<lambda>(p, q, w). (p, - q)) u = order_mutations order_data"
      and recs: "\<forall>x \<in> set u. get_inventory_by_product_id db (fst x) \<noteq> None"
      by (auto simp: order_mutations_def)
    have inv2: "storage_inv ?db2" using assms by (rule storage_inv_frame) simp_all
    have same: "get_inventory_by_product_id ?db2 = get_inventory_by_product_id db"
      "available_quantity ?db2 = available_quantity db"
      by (auto simp: fun_eq_iff get_inventory_by_product_id_def available_quantity_def)
    from deduct_inventory_audited[OF inv2, of u now "orders_seq db"] recs obtain es where
      "inventory_logs ?db3 = inventory_logs db @ es"
      "entries_match (available_quantity db) (order_mutations order_data) es"
      "\<forall>p. available_quantity ?db3 p
            = apply_mutations (order_mutations order_data) (available_quantity db) p"
      by (auto simp: same muts)
    then have "audited_by db ?db3 (order_mutations order_data)"
      by (intro audited_byI) auto
    then show ?thesis by (simp add: out)
  qed
qed

section \<open>Stock deduction and overselling\<close>

text \<open>
  C1 (no oversell: the quantities deducted by successful orders never exceed the
  starting quantity). Validation compares every line with the stock on hand, one line
  at a time, and the commit loop deducts without looking at the stock again. With 5
  units in stock, a single order with two lines of 3 units of the same product passes
  validation, succeeds, deducts 6 units and leaves the stock record at -1.
\<close>

theorem create_order_duplicate_lines_oversell:
  "fst (create_order True True (101, 0) (order_of [(1, 3), (1, 3)]) (stocked 5))
     = Inr \<lparr>o_id = 1, o_order_date = (101, 0), o_customer_name = None,
             o_status = ''completed'', o_total_amount = 1500\<rparr>
   \<and> map inv_quantity (inventory (stocked 5)) = [5]
   \<and> map inv_quantity
         (inventory (snd (create_order True True (101, 0) (order_of [(1, 3), (1, 3)])
                            (stocked 5))))
       = [- 1]
   \<and> map log_change_quantity
         (inventory_logs (snd (create_order True True (101, 0) (order_of [(1, 3), (1, 3)])
                                 (stocked 5))))
       = [5, - 3, - 3]"
  by (simp add: stocked_eq order_of_def create_order_def get_product_def
        get_inventory_by_product_id_def Let_def)

text \<open>
  \<open>create_order\<close> is its validation loop followed by \<open>commit_order\<close> on the same storage.
\<close>

lemma create_order_phases:
  "create_order commit1_ok commit2_ok now order_data db =
     (case validate_items db (oc_items order_data) (0, [], []) of
        Inl e \<Rightarrow> (Inl e, db)
      | Inr validated \<Rightarrow> commit_order commit1_ok commit2_ok now order_data validated db)"
  by (simp add: create_order_def commit_order_def split: sum.splits)

text \<open>
  Two requests for 3 units each against 5 units in stock, interleaved: both run their
  validation loop on the same storage and pass, then each runs its commit statements,
  one after the other. Both succeed and the stock record ends at -1.
\<close>

lemma interleaved_orders_oversell:
  "validate_items (stocked 5) (oc_items (order_of [(1, 3)])) (0, [], [])
     = Inr (750, [(1, 3, 250, 750)], [(1, 3, 5)])
   \<and> fst (commit_order True True (101, 0) (order_of [(1, 3)])
            (750, [(1, 3, 250, 750)], [(1, 3, 5)]) (stocked 5))
       = Inr \<lparr>o_id = 1, o_order_date = (101, 0), o_customer_name = None,
               o_status = ''completed'', o_total_amount = 750\<rparr>
   \<and> fst (commit_order True True (101, 0) (order_of [(1, 3)])
            (750, [(1, 3, 250, 750)], [(1, 3, 5)])
            (snd (commit_order True True (101, 0) (order_of [(1, 3)])
                    (750, [(1, 3, 250, 750)], [(1, 3, 5)]) (stocked 5))))
       = Inr \<lparr>o_id = 2, o_order_date = (101, 0), o_customer_name = None,
               o_status = ''completed'', o_total_amount = 750\<rparr>
   \<and> map inv_quantity
         (inventory
            (snd (commit_order True True (101, 0) (order_of [(1, 3)])
                    (750, [(1, 3, 250, 750)], [(1, 3, 5)])
                    (snd (commit_order True True (101, 0) (order_of [(1, 3)])
                            (750, [(1, 3, 250, 750)], [(1, 3, 5)]) (stocked 5))))))
       = [- 1]"
  by (simp add: stocked_eq order_of_def commit_order_def get_product_def
        get_inventory_by_product_id_def Let_def)

section \<open>Rejected orders\<close>

text \<open>
  C2: when some line of an order names a product that does not exist, or asks for
  more than the available quantity, \<open>create_order\<close> raises \<open>ValueError\<close> for a
  failing line of the order, with the product-not-found message or the
  not-enough-stock message of that line, and returns the storage as it was: no order,
  no order item, no log entry, no change of stock.
\<close>

theorem create_order_rejects_invalid_line:
  assumes "item_data \<in> set (oc_items order_data)"
    and "get_product db (oic_product_id item_data) = None
         \<or> available_quantity db (oic_product_id item_data) < oic_quantity item_data"
  shows "\<exists>bad \<in> set (oc_items order_data).
           (get_product db (oic_product_id bad) = None
            \<and> create_order commit1_ok commit2_ok now order_data db
                = (Inl (ValueError (product_not_found_msg (oic_product_id bad))), db))
         \<or> (\<exists>db_product. get_product db (oic_product_id bad) = Some db_product
              \<and> (get_inventory_by_product_id db (oic_product_id bad) = None
                  \<or> available_quantity db (oic_product_id bad) < oic_quantity bad)
              \<and> create_order commit1_ok commit2_ok now order_data db
                  = (Inl (ValueError (not_enough_stock_msg (p_name db_product)
                       (oic_product_id bad) (available_quantity db (oic_product_id bad))
                       (oic_quantity bad))), db))"
proof -
  from assms(2) have "line_fails db item_data"
    by (auto simp: line_fails_def available_quantity_def split: option.splits)
  with assms(1) obtain bad where f: "find (line_fails db) (oc_items order_data) = Some bad"
    by (cases "find (line_fails db) (oc_items order_data)") (auto simp: find_None_iff)
  then have bad: "bad \<in> set (oc_items order_data)" "line_fails db bad"
    by (auto simp: find_Some_iff)
  have res: "create_order commit1_ok commit2_ok now order_data db = (Inl (line_error db bad), db)"
    by (simp add: create_order_def validate_items_first_failure[OF f])
  show ?thesis
  proof (cases "get_product db (oic_product_id bad)")
    case None
    with res bad(1) show ?thesis by (auto simp: line_error_def)
  next
    case (Some db_product)
    with bad(2) have "get_inventory_by_product_id db (oic_product_id bad) = None
        \<or> available_quantity db (oic_product_id bad) < oic_quantity bad"
      by (auto simp: line_fails_def available_quantity_def split: option.splits)
    with res bad(1) Some show ?thesis by (auto simp: line_error_def)
  qed
qed

theorem create_order_rejects_invalid_line_witness:
  "\<lparr>oic_product_id = 2, oic_quantity = 1\<rparr> \<in> set (oc_items (order_of [(1, 3), (2, 1)]))
   \<and> get_product (stocked 5) 2 = None
   \<and> create_order True True (101, 0) (order_of [(1, 3), (2, 1)]) (stocked 5)
       = (Inl (ValueError ''Product with ID 2 not found.''), stocked 5)"
proof -
  have h1: "\<lparr>oic_product_id = 2, oic_quantity = 1\<rparr> \<in> set (oc_items (order_of [(1, 3), (2, 1)]))"
    by (simp add: order_of_def)
  have h2: "get_product (stocked 5) 2 = None"
    by (simp add: stocked_eq get_product_def)
  have h3: "get_product (stocked 5) (oic_product_id \<lparr>oic_product_id = 2, oic_quantity = 1\<rparr>) = None
     \<or> available_quantity (stocked 5) (oic_product_id \<lparr>oic_product_id = 2, oic_quantity = 1\<rparr>)
         < oic_quantity \<lparr>oic_product_id = 2, oic_quantity = 1\<rparr>"
    using h2 by simp
  have p1: "get_product (stocked 5) 1 \<noteq> None"
    "get_inventory_by_product_id (stocked 5) 1 \<noteq> None"
    "\<not> available_quantity (stocked 5) 1 < 3"
    by (simp_all add: stocked_eq get_product_def get_inventory_by_product_id_def
          available_quantity_def)
  from create_order_rejects_invalid_line[OF h1 h3, of True True "(101, 0)"] p1 h2
  have "create_order True True (101, 0) (order_of [(1, 3), (2, 1)]) (stocked 5)
       = (Inl (ValueError ''Product with ID 2 not found.''), stocked 5)"
    by (auto simp: order_of_def product_not_found_msg_def)
  with h1 h2 show ?thesis by blast
qed

text \<open>
  C10, with the condition the code needs: when the first line of an order that fails
  validation (every line before it passes) names a product that exists but has no
  stock record, \<open>create_order\<close> raises the not-enough-stock \<open>ValueError\<close>, reporting 0
  units available, not a not-found error, and returns the storage as it was.
\<close>

theorem create_order_without_stock_record:
  assumes "oc_items order_data = passed @ item_data # rest"
    and "\<forall>it \<in> set passed. \<not> line_fails db it"
    and "get_product db (oic_product_id item_data) = Some db_product"
    and "get_inventory_by_product_id db (oic_product_id item_data) = None"
  shows "create_order commit1_ok commit2_ok now order_data db =
           (Inl (ValueError (not_enough_stock_msg (p_name db_product)
                   (oic_product_id item_data) 0 (oic_quantity item_data))), db)"
proof -
  have "line_fails db item_data" using assms(3,4) by (simp add: line_fails_def)
  with assms(1,2) have "find (line_fails db) (oc_items order_data) = Some item_data"
    by (auto simp: find_Some_iff nth_append intro!: exI[of _ "length passed"])
  from validate_items_first_failure[OF this] show ?thesis
    using assms(3,4) by (simp add: create_order_def line_error_def available_quantity_def)
qed

theorem create_order_without_stock_record_witness:
  "oc_items (order_of [(1, 3), (2, 1)])
     = [\<lparr>oic_product_id = 1, oic_quantity = 3\<rparr>] @ \<lparr>oic_product_id = 2, oic_quantity = 1\<rparr> # []
   \<and> \<not> line_fails mixed \<lparr>oic_product_id = 1, oic_quantity = 3\<rparr>
   \<and> get_product mixed 2 \<noteq> None
   \<and> get_inventory_by_product_id mixed 2 = None
   \<and> create_order True True (101, 0) (order_of [(1, 3), (2, 1)]) mixed
       = (Inl (ValueError
           ''Not enough stock for product Gadget (ID: 2). Available: 0, Requested: 1''),
          mixed)"
proof -
  let ?p = "\<lparr>p_id = 2, p_name = ''Gadget'', p_description = None, p_price = 250,
                p_category_id = 1, p_sku = None, p_created_at = (100, 0),
                p_updated_at = (100, 0)\<rparr>"
  let ?a = "\<lparr>oic_product_id = 1, oic_quantity = 3\<rparr>"
  let ?i = "\<lparr>oic_product_id = 2, oic_quantity = 1\<rparr>"
  have h1: "oc_items (order_of [(1, 3), (2, 1)]) = [?a] @ ?i # []"
    by (simp add: order_of_def)
  have ok: "\<not> line_fails mixed ?a"
    by (simp add: line_fails_def mixed_eq get_product_def get_inventory_by_product_id_def)
  then have h2: "\<forall>it \<in> set [?a]. \<not> line_fails mixed it" by simp
  have h3: "get_product mixed (oic_product_id ?i) = Some ?p"
    by (simp add: mixed_eq get_product_def)
  have h4: "get_inventory_by_product_id mixed (oic_product_id ?i) = None"
    by (simp add: mixed_eq get_inventory_by_product_id_def)
  from create_order_without_stock_record[OF h1 h2 h3 h4, of True True "(101, 0)"]
    h1 ok h3 h4
  show ?thesis by (simp add: not_enough_stock_msg_def)
qed

text \<open>
  Without the condition on the earlier lines the statement fails: validation stops at
  the first failing line, so an order whose first line names an unknown product and
  whose second line names a product without stock record is rejected with the
  product-not-found error of the first line.
\<close>

theorem create_order_without_stock_record_counterexample:
  "\<lparr>oic_product_id = 2, oic_quantity = 1\<rparr> \<in> set (oc_items (order_of [(3, 1), (2, 1)]))
   \<and> get_product mixed 2 \<noteq> None
   \<and> get_inventory_by_product_id mixed 2 = None
   \<and> create_order True True (101, 0) (order_of [(3, 1), (2, 1)]) mixed
       = (Inl (ValueError ''Product with ID 3 not found.''), mixed)"
  by (simp add: mixed_eq order_of_def create_order_def get_product_def
        get_inventory_by_product_id_def product_not_found_msg_def)

section \<open>Failure of a commit\<close>

text \<open>
  C3 (the commit of an order is one atomic transaction; a storage failure rolls back
  every write of the order). \<open>create_order\<close> commits the order row before it adds the
  order items, the deductions and the log entries. When the second commit fails, the
  error is raised and the order row, with status \<open>completed\<close> and its total, stays in
  the storage without any order item, deduction or log entry.
\<close>

theorem create_order_second_commit_failure_keeps_order:
  "create_order True False (101, 0) (order_of [(1, 3)]) (stocked 5)
     = (Inl StorageError,
        (stocked 5)\<lparr>orders := [\<lparr>o_id = 1, o_order_date = (101, 0), o_customer_name = None,
                                  o_status = ''completed'', o_total_amount = 750\<rparr>],
                    orders_seq := 2\<rparr>)"
  by (simp add: stocked_eq order_of_def create_order_def get_product_def
        get_inventory_by_product_id_def Let_def)

text \<open>
  C6 (for a call whose category exists and whose SKU is unused, product, stock record
  and \<open>Initial stock\<close> log entry are created in one transaction; if one write fails
  none persists). \<open>create_product\<close> commits the product row before it adds the stock
  record and the log entry. On a storage that holds the product's category, when the
  second commit fails, the product stays in the storage without stock record and
  without log entry.
\<close>

theorem create_product_second_commit_failure_keeps_product:
  "get_category catalog (pc_category_id (sample_product 5))
     = Some \<lparr>cat_id = 1, cat_name = ''Tools'', cat_description = None\<rparr>
   \<and> pc_sku (sample_product 5) = None
   \<and> fst (create_product True False (100, 0) (sample_product 5) catalog) = Inl StorageError
   \<and> map p_name (products (snd (create_product True False (100, 0) (sample_product 5)
                                   catalog)))
       = [''Widget'']
   \<and> inventory (snd (create_product True False (100, 0) (sample_product 5) catalog)) = []
   \<and> inventory_logs (snd (create_product True False (100, 0) (sample_product 5) catalog))
       = []"
  by (simp add: create_product_def sample_product_def catalog_def empty_db_def
        get_category_def Let_def)

text \<open>
  The same holds on every storage and for every product: a failure of the second
  commit leaves exactly the product row behind.
\<close>

lemma create_product_second_commit_failure:
  "create_product True False now product db
     = (Inl StorageError,
        db\<lparr>products := products db @
              [\<lparr>p_id = products_seq db, p_name = pc_name product,
                p_description = pc_description product, p_price = pc_price product,
                p_category_id = pc_category_id product, p_sku = pc_sku product,
                p_created_at = now, p_updated_at = now\<rparr>],
            products_seq := products_seq db + 1\<rparr>)"
  by (simp add: create_product_def Let_def)

section \<open>Completeness of the audit trail\<close>

text \<open>
  C4: in every state reached from a storage without products by \<open>create_product\<close>,
  \<open>update_inventory\<close> and \<open>create_order\<close>, whichever commits fail, the log entries of
  every stock record, replayed from 0, give the record's quantity; and each of the
  three operations, run in such a state, appends to the log exactly one entry for each
  change it makes to a quantity, carrying the change applied and the quantity that
  results, and nothing else, in the storage it leaves behind:
  \<^item> \<open>create_product\<close>, when both commits succeed, makes one change, the initial quantity
    of the new product, and none when a commit fails;
  \<^item> \<open>update_inventory\<close> appends no entry and leaves every quantity as it was, or
    appends one entry whose change is the difference between the product's quantity
    after and before;
  \<^item> \<open>create_order\<close>, when it succeeds, makes one deduction for each line, in the order
    of the lines, and none when it fails.
\<close>

theorem audit_trail_complete:
  assumes "reachable db"
  shows "audit_complete db
     \<and> audited_by db (snd (create_product product_commit stock_commit created_at product db))
         (if product_commit \<and> stock_commit
          then [(products_seq db, pc_initial_quantity product)] else [])
     \<and> audited_by db (snd (update_inventory adjust_commit adjusted_at product_id upd db))
         (if inventory_logs (snd (update_inventory adjust_commit adjusted_at product_id upd db))
               = inventory_logs db
          then []
          else [(product_id,
                 available_quantity
                   (snd (update_inventory adjust_commit adjusted_at product_id upd db))
                   product_id
                 - available_quantity db product_id)])
     \<and> audited_by db (snd (create_order order_commit lines_commit ordered_at order_data db))
         (case fst (create_order order_commit lines_commit ordered_at order_data db) of
            Inl e \<Rightarrow> [] | Inr db_order \<Rightarrow> order_mutations order_data)"
proof -
  from assms have inv: "storage_inv db" by (rule reachable_storage_inv)
  then have "audit_complete db" by (simp add: storage_inv_def)
  with inv show ?thesis
    by (simp only: audited_create_product audited_update_inventory audited_create_order
          simp_thms)
qed

theorem audit_trail_complete_witness:
  "reachable (stocked 5) \<and> audit_complete (stocked 5)
   \<and> audited_by (stocked 5)
        (snd (create_product True True (100, 0) (sample_product 7) (stocked 5))) [(2, 7)]
   \<and> audited_by (stocked 5)
        (snd (update_inventory True (101, 0) 1
                \<lparr>iu_quantity_change = Some (- 10), iu_absolute_quantity = None,
                 iu_reason = None, iu_low_stock_threshold = None\<rparr> (stocked 5)))
        [(1, - 5)]
   \<and> audited_by (stocked 5) sold [(1, - 2), (1, - 3)]"
proof -
  let ?u = "\<lparr>iu_quantity_change = Some (- 10), iu_absolute_quantity = None,
             iu_reason = None, iu_low_stock_threshold = None\<rparr>"
  have r: "reachable (stocked 5)"
    unfolding stocked_def catalog_def by (intro reachable.intros)
  have e1: "products_seq (stocked 5) = 2" "pc_initial_quantity (sample_product 7) = 7"
    by (simp_all add: stocked_eq sample_product_def)
  have e2: "inventory_logs (snd (update_inventory True (101, 0) 1 ?u (stocked 5)))
              \<noteq> inventory_logs (stocked 5)"
    "available_quantity (snd (update_inventory True (101, 0) 1 ?u (stocked 5))) 1 = 0"
    "available_quantity (stocked 5) 1 = 5"
    by (simp_all add: stocked_eq update_inventory_def get_inventory_by_product_id_def
          available_quantity_def Let_def)
  have e3: "create_order True True (101, 0) (order_of [(1, 2), (1, 3)]) (stocked 5)
              = (Inr \<lparr>o_id = 1, o_order_date = (101, 0), o_customer_name = None,
                      o_status = ''completed'', o_total_amount = 1250\<rparr>, sold)"
    by (simp add: sold_def prod_eq_iff)
       (simp add: stocked_eq order_of_def create_order_def get_product_def
          get_inventory_by_product_id_def Let_def)
  have e4: "order_mutations (order_of [(1, 2), (1, 3)]) = [(1, - 2), (1, - 3)]"
    by (simp add: order_mutations_def order_of_def)
  from audit_trail_complete[OF r, where product_commit = True and stock_commit = True
         and created_at = "(100, 0)" and product = "sample_product 7"
         and adjust_commit = True and adjusted_at = "(101, 0)" and product_id = 1
         and upd = ?u and order_commit = True and lines_commit = True
         and ordered_at = "(101, 0)" and order_data = "order_of [(1, 2), (1, 3)]"]
  show ?thesis using r by (simp add: e1 e2 e3 e4)
qed

section \<open>Manual adjustment\<close>

text \<open>
  C5: when the relative change, or the absolute target, of a manual adjustment would
  take the quantity of an existing stock record below zero, \<open>update_inventory\<close> does not
  raise, the quantity becomes 0, and the log entry it adds records the change applied
  (0 minus the former quantity) and the new quantity 0. With 3 units and a change of
  -10 the entry records -3.
\<close>

theorem update_inventory_clamps_at_zero:
  assumes "get_inventory_by_product_id db product_id = Some db_inventory"
    and "(\<exists>c. iu_quantity_change upd = Some c \<and> inv_quantity db_inventory + c < 0)
         \<or> (iu_quantity_change upd = None
             \<and> (\<exists>a. iu_absolute_quantity upd = Some a \<and> a < 0))"
  shows "\<exists>updated db' entry.
           update_inventory True now product_id upd db = (Inr (Some updated), db')
           \<and> inv_quantity updated = 0
           \<and> get_inventory_by_product_id db' product_id = Some updated
           \<and> inventory_logs db' = inventory_logs db @ [entry]
           \<and> log_product_id entry = product_id
           \<and> log_change_quantity entry = 0 - inv_quantity db_inventory
           \<and> log_new_quantity entry = 0"
proof -
  from assms(1) have pid: "inv_product_id db_inventory = product_id"
    by (auto simp: get_inventory_by_product_id_def find_Some_iff)
  let ?updated = "db_inventory\<lparr>inv_quantity := 0,
        inv_low_stock_threshold :=
          (case iu_low_stock_threshold upd of
             Some t \<Rightarrow> t | None \<Rightarrow> inv_low_stock_threshold db_inventory),
        inv_last_updated := now\<rparr>"
  have found: "\<And>db'. inventory db' =
          map (\<lambda>r. if inv_id r = inv_id db_inventory then ?updated else r) (inventory db)
        \<Longrightarrow> get_inventory_by_product_id db' product_id = Some ?updated"
    using assms(1) pid unfolding get_inventory_by_product_id_def
    by (simp add: find_map_replace)
  have neg: "(case iu_quantity_change upd of
                Some c \<Rightarrow> inv_quantity db_inventory + c
              | None \<Rightarrow> (case iu_absolute_quantity upd of
                           Some a \<Rightarrow> a | None \<Rightarrow> inv_quantity db_inventory)) < 0"
    using assms(2) by auto
  have logged: "0 - inv_quantity db_inventory \<noteq> 0
        \<or> (case iu_quantity_change upd of Some c \<Rightarrow> c \<noteq> 0 | None \<Rightarrow> False)
        \<or> (case iu_absolute_quantity upd of
              Some a \<Rightarrow> a \<noteq> inv_quantity db_inventory | None \<Rightarrow> False)"
    using assms(2) by auto
  show ?thesis
    unfolding update_inventory_def assms(1) option.case Let_def
    using neg logged by (simp add: found)
qed

theorem update_inventory_clamps_at_zero_witness:
  "get_inventory_by_product_id (stocked 3) 1
     = Some \<lparr>inv_id = 1, inv_product_id = 1, inv_quantity = 3,
             inv_low_stock_threshold = 10, inv_last_updated = (100, 0)\<rparr>
   \<and> (\<exists>updated db' entry.
         update_inventory True (101, 0) 1
             \<lparr>iu_quantity_change = Some (- 10), iu_absolute_quantity = None,
              iu_reason = None, iu_low_stock_threshold = None\<rparr> (stocked 3)
           = (Inr (Some updated), db')
         \<and> inv_quantity updated = 0
         \<and> get_inventory_by_product_id db' 1 = Some updated
         \<and> inventory_logs db' = inventory_logs (stocked 3) @ [entry]
         \<and> log_product_id entry = 1
         \<and> log_change_quantity entry = - 3
         \<and> log_new_quantity entry = 0)"
proof -
  let ?r = "\<lparr>inv_id = 1, inv_product_id = 1, inv_quantity = 3,
             inv_low_stock_threshold = 10, inv_last_updated = (100, 0)\<rparr>"
  let ?u = "\<lparr>iu_quantity_change = Some (- 10), iu_absolute_quantity = None,
              iu_reason = None, iu_low_stock_threshold = None\<rparr>"
  have h1: "get_inventory_by_product_id (stocked 3) 1 = Some ?r"
    by (simp add: stocked_eq get_inventory_by_product_id_def)
  have h2: "(\<exists>c. iu_quantity_change ?u = Some c \<and> inv_quantity ?r + c < 0)
         \<or> (iu_quantity_change ?u = None
             \<and> (\<exists>a. iu_absolute_quantity ?u = Some a \<and> a < 0))"
    by simp
  from update_inventory_clamps_at_zero[OF h1 h2, of "(101, 0)"] h1 show ?thesis
    by simp
qed

section \<open>Pricing\<close>

text \<open>
  C7: a successful \<open>create_order\<close> adds the order and one order item per line, in
  order; each item's \<open>price_at_sale\<close> is the price of its product in the storage the
  order was validated against, its \<open>subtotal\<close> is \<open>price_at_sale\<close> times its quantity, and
  the order's \<open>total_amount\<close> is the sum of the subtotals of its items.
\<close>

theorem create_order_pricing:
  assumes "create_order commit1_ok commit2_ok now order_data db = (Inr db_order, db')"
  shows "\<exists>lines. order_items db' = order_items db @ lines
           \<and> orders db' = orders db @ [db_order]
           \<and> list_all2 (\<lambda>item_data line.
                 oi_order_id line = o_id db_order
                 \<and> oi_product_id line = oic_product_id item_data
                 \<and> oi_quantity line = oic_quantity item_data
                 \<and> (\<exists>p. get_product db (oic_product_id item_data) = Some p
                         \<and> oi_price_at_sale line = p_price p)
                 \<and> oi_subtotal line = oi_price_at_sale line * oi_quantity line)
               (oc_items order_data) lines
           \<and> o_total_amount db_order = sum_list (map oi_subtotal lines)"
proof -
  from assms obtain t c u where
    v: "validate_items db (oc_items order_data) (0, [], []) = Inr (t, c, u)"
    by (auto simp: create_order_def split: sum.splits)
  let ?ord = "\<lparr>o_id = orders_seq db, o_order_date = now,
                o_customer_name = oc_customer_name order_data,
                o_status = ''completed'', o_total_amount = t\<rparr>"
  let ?db1 = "db\<lparr>orders := orders db @ [?ord], orders_seq := orders_seq db + 1\<rparr>"
  from assms v have ord: "db_order = ?ord"
    and db': "db' = deduct_inventory now (orders_seq db) u (add_order_items (orders_seq db) c ?db1)"
    by (auto simp: create_order_def Let_def split: if_splits)
  from validate_items_priced[OF v] have
    pr: "list_all2 (priced_line db) (oc_items order_data) c"
    and tot: "t = sum_list (map (\<lambda>(_, _, _, s). s) c)" by auto
  from add_order_items_rows[of "orders_seq db" c ?db1] obtain lines where
    lines: "order_items (add_order_items (orders_seq db) c ?db1) = order_items db @ lines"
           "list_all2 (row_of_info (orders_seq db)) c lines" by auto
  have 1: "order_items db' = order_items db @ lines" using db' lines(1) by simp
  have 2: "orders db' = orders db @ [db_order]" using db' ord by simp
  have 3: "list_all2 (\<lambda>item_data line.
                 oi_order_id line = o_id db_order
                 \<and> oi_product_id line = oic_product_id item_data
                 \<and> oi_quantity line = oic_quantity item_data
                 \<and> (\<exists>p. get_product db (oic_product_id item_data) = Some p
                         \<and> oi_price_at_sale line = p_price p)
                 \<and> oi_subtotal line = oi_price_at_sale line * oi_quantity line)
               (oc_items order_data) lines"
  proof -
    have "list_all2 (priced_line db OO row_of_info (orders_seq db)) (oc_items order_data) lines"
      using pr lines(2) by (auto simp: list.rel_compp)
    then show ?thesis
      by (rule list_all2_mono) (auto simp: priced_line_def row_of_info_def ord)
  qed
  have "map (\<lambda>(_, _, _, s). s) c = map oi_subtotal lines"
    using lines(2) by (induction rule: list_all2_induct) (auto simp: row_of_info_def)
  with tot ord have 4: "o_total_amount db_order = sum_list (map oi_subtotal lines)" by simp
  from 1 2 3 4 show ?thesis by blast
qed

theorem create_order_pricing_witness:
  "create_order True True (101, 0) (order_of [(1, 2), (1, 3)]) (stocked 5)
     = (Inr \<lparr>o_id = 1, o_order_date = (101, 0), o_customer_name = None,
             o_status = ''completed'', o_total_amount = 1250\<rparr>, sold)
   \<and> (\<exists>lines. order_items sold = order_items (stocked 5) @ lines
         \<and> orders sold = orders (stocked 5) @
              [\<lparr>o_id = 1, o_order_date = (101, 0), o_customer_name = None,
                o_status = ''completed'', o_total_amount = 1250\<rparr>]
         \<and> list_all2 (\<lambda>item_data line.
               oi_order_id line = 1
               \<and> oi_product_id line = oic_product_id item_data
               \<and> oi_quantity line = oic_quantity item_data
               \<and> (\<exists>p. get_product (stocked 5) (oic_product_id item_data) = Some p
                       \<and> oi_price_at_sale line = p_price p)
               \<and> oi_subtotal line = oi_price_at_sale line * oi_quantity line)
             (oc_items (order_of [(1, 2), (1, 3)])) lines
         \<and> 1250 = sum_list (map oi_subtotal lines))"
proof -
  let ?o = "\<lparr>o_id = 1, o_order_date = (101, 0), o_customer_name = None,
             o_status = ''completed'', o_total_amount = 1250\<rparr>"
  have "fst (create_order True True (101, 0) (order_of [(1, 2), (1, 3)]) (stocked 5)) = Inr ?o"
    by (simp add: stocked_eq order_of_def create_order_def get_product_def
          get_inventory_by_product_id_def Let_def)
  then have h: "create_order True True (101, 0) (order_of [(1, 2), (1, 3)]) (stocked 5)
                  = (Inr ?o, sold)"
    by (simp add: sold_def prod_eq_iff)
  from create_order_pricing[OF h] h show ?thesis by simp
qed

text \<open>
  C8: \<open>update_product\<close>, whatever it changes and whether or not its commit succeeds,
  leaves the orders and the order items as they were: a later change of a price
  changes no \<open>price_at_sale\<close>, \<open>subtotal\<close> or \<open>total_amount\<close>.
\<close>

theorem update_product_keeps_order_history:
  "orders (snd (update_product commit_ok now product_id product_update db)) = orders db
   \<and> order_items (snd (update_product commit_ok now product_id product_update db))
       = order_items db"
  by (simp add: update_product_def Let_def split: option.splits)

theorem update_product_keeps_order_history_witness:
  "map p_price (products sold) = [250]
   \<and> map p_price (products (snd (update_product True (102, 0) 1
         \<lparr>pu_name = None, pu_description = None, pu_price = Some (Some 999),
          pu_category_id = None, pu_sku = None\<rparr> sold))) = [999]
   \<and> orders (snd (update_product True (102, 0) 1
         \<lparr>pu_name = None, pu_description = None, pu_price = Some (Some 999),
          pu_category_id = None, pu_sku = None\<rparr> sold)) = orders sold
   \<and> order_items (snd (update_product True (102, 0) 1
         \<lparr>pu_name = None, pu_description = None, pu_price = Some (Some 999),
          pu_category_id = None, pu_sku = None\<rparr> sold)) = order_items sold
   \<and> map oi_price_at_sale (order_items sold) = [250, 250]"
proof -
  let ?u = "\<lparr>pu_name = None, pu_description = None, pu_price = Some (Some 999),
          pu_category_id = None, pu_sku = None\<rparr>"
  have 1: "map p_price (products sold) = [250]"
    and 2: "map oi_price_at_sale (order_items sold) = [250, 250]"
    by (simp_all add: sold_eq)
  have 3: "map p_price (products (snd (update_product True (102, 0) 1 ?u sold))) = [999]"
    by (simp add: sold_eq update_product_def get_product_def set_field_def
          set_nullable_def Let_def)
  from update_product_keeps_order_history[of True "(102, 0)" 1 ?u sold] 1 2 3
  show ?thesis by simp
qed

section \<open>Revenue comparison\<close>

text \<open>
  Whatever the storage, the dates and the category, \<open>get_revenue_for_period\<close> raises,
  and the endpoint answers HTTP 500 for every pair of valid date ranges.
\<close>

lemma get_revenue_for_period_raises:
  "get_revenue_for_period db start_date end_date category_id
     = Inl (AttributeError ''Query object has no attribute scalar_one_or_none'')"
  by (simp add: get_revenue_for_period_def scalar_one_or_none_def Let_def)

lemma get_revenue_comparison_report_fails:
  "get_revenue_comparison_report percent (Some start_a) (Some end_a) (Some start_b)
       (Some end_b) category_a category_b db
     = (if start_a > end_a \<or> start_b > end_b
        then Inl (HTTP400 ''Start date cannot be after end date for any period.'')
        else Inl (HTTP500 ''Error processing revenue comparison.''))"
  by (simp add: get_revenue_comparison_report_def get_revenue_for_period_raises Let_def)

text \<open>
  C9 (the comparison returns \<open>difference\<close> = second revenue - first revenue, and an
  infinite \<open>percentage_change\<close> when the first revenue is 0 and the second is positive).
  In \<open>sold\<close> the query of days 1 to 50 selects no order item and the query of days 100
  to 110 selects the two items of the order, 5.00 and 7.50: the claim asks for a report
  with difference 12.50 and an infinite percentage change. The endpoint answers HTTP
  500, because \<open>get_revenue_for_period\<close> raises before it returns a revenue.
\<close>

theorem revenue_comparison_answers_http_500:
  "map oi_subtotal (revenue_query sold 1 50 None) = []
   \<and> map oi_subtotal (revenue_query sold 100 110 None) = [500, 750]
   \<and> get_revenue_comparison_report (\<lambda>difference rev. None) (Some 1) (Some 50) (Some 100)
         (Some 110) None None sold
       = Inl (HTTP500 ''Error processing revenue comparison.'')"
  by (simp add: get_revenue_comparison_report_fails)
     (simp add: revenue_query_def sold_eq in_period_def combine_def time_min_def
        time_max_def Let_def)

end
